theory Spec2Isabelle
  imports Complex_Main "HOL-Library.Char_ord" "HOL-Library.List_Lexorder"
begin

section \<open>Python values and builtins used by app.py\<close>

text \<open>
  Amounts are Python floats in the source.  They are modelled as exact rationals: the
  arithmetic of the handlers is kept operation by operation, the rounding error of
  binary floating point (and the values inf and nan) is outside the model.
  Strings are byte strings (UTF-8); the order on them is the lexicographic order on
  bytes, which is Python's order on code points.
\<close>

type_synonym amount = rat

datatype error = ValueError | AttributeError | KeyError | BadRequestKeyError

text \<open>What \<open>request.form.get(key, default)\<close> can hand to \<open>parse_number\<close>.\<close>

datatype pyval = PNone | PStr string | PFloat amount

text \<open>
  \<open>str.isspace\<close> on ASCII: tab, newline, VT, FF, CR, FS, GS, RS, US and space.  The
  white space beyond ASCII, which \<open>str.strip\<close> removes too, is left in place by
  \<open>strip\<close>; no theorem below depends on what \<open>strip\<close> removes.
\<close>

definition isspace :: "char \<Rightarrow> bool" where
  "isspace c = (let n = (of_char c :: nat) in (9 \<le> n \<and> n \<le> 13) \<or> (28 \<le> n \<and> n \<le> 32))"

definition strip :: "string \<Rightarrow> string" where
  "strip s = rev (dropWhile isspace (rev (dropWhile isspace s)))"

text \<open>\<open>s.replace(",", ".")\<close>\<close>

definition replace_comma :: "string \<Rightarrow> string" where
  "replace_comma s = map (\<lambda>c. if c = CHR '','' then CHR ''.'' else c) s"

text \<open>\<open>s.startswith(p)\<close>\<close>

definition startswith :: "string \<Rightarrow> string \<Rightarrow> bool" where
  "startswith s p = (take (length p) s = p)"

text \<open>Python's \<open>a or b\<close> on an optional string: \<open>None\<close> and \<open>""\<close> are falsy.\<close>

definition str_or :: "string option \<Rightarrow> string \<Rightarrow> string" where
  "str_or a b = (case a of None \<Rightarrow> b | Some s \<Rightarrow> if s = [] then b else s)"

text \<open>Decimal digits of a natural number, most significant first.\<close>

definition digit_char :: "nat \<Rightarrow> char" where
  "digit_char d = ''0123456789'' ! d"

fun digits :: "nat \<Rightarrow> string" where
  "digits n = (if n < 10 then [digit_char n] else digits (n div 10) @ [digit_char (n mod 10)])"

declare digits.simps [simp del]

text \<open>
  \<open>format(n, "0wd")\<close>: decimal, zero-padded to width \<open>w\<close>, the sign counted in the
  width.  \<open>str(n)\<close> and \<open>f"{n}"\<close> are the width 0.
\<close>

definition format_d :: "nat \<Rightarrow> int \<Rightarrow> string" where
  "format_d w n =
     (if n < 0
      then CHR ''-'' # replicate ((w - 1) - length (digits (nat (- n)))) CHR ''0'' @ digits (nat (- n))
      else replicate (w - length (digits (nat n))) CHR ''0'' @ digits (nat n))"

definition str_int :: "int \<Rightarrow> string" where
  "str_int n = format_d 0 n"

text \<open>
  The builtins \<open>int\<close> and \<open>float\<close> on a string are parameters of the handlers
  (\<open>None\<close> is their \<open>ValueError\<close>), so every theorem below holds for whatever
  they accept.  For concrete runs, \<open>int_dec\<close> and \<open>float_dec\<close> read plain ASCII
  decimal literals: surrounding whitespace, an optional sign, digits, and for
  \<open>float_dec\<close> an optional fraction after a dot.
\<close>

definition is_digit :: "char \<Rightarrow> bool" where
  "is_digit c = (let n = (of_char c :: nat) in 48 \<le> n \<and> n \<le> 57)"

definition digit_val :: "char \<Rightarrow> nat" where
  "digit_val c = of_char c - 48"

definition nat_of_digits :: "string \<Rightarrow> nat" where
  "nat_of_digits s = foldl (\<lambda>acc c. 10 * acc + digit_val c) 0 s"

definition unsigned_dec :: "string \<Rightarrow> nat option" where
  "unsigned_dec s = (if s \<noteq> [] \<and> list_all is_digit s then Some (nat_of_digits s) else None)"

definition int_dec :: "string \<Rightarrow> int option" where
  "int_dec raw =
     (case strip raw of
        [] \<Rightarrow> None
      | c # cs \<Rightarrow>
          if c = CHR ''-'' then map_option (\<lambda>n. - int n) (unsigned_dec cs)
          else if c = CHR ''+'' then map_option int (unsigned_dec cs)
          else map_option int (unsigned_dec (c # cs)))"

definition unsigned_float_dec :: "string \<Rightarrow> amount option" where
  "unsigned_float_dec s =
     (let ip = takeWhile (\<lambda>c. c \<noteq> CHR ''.'') s;
          rest = dropWhile (\<lambda>c. c \<noteq> CHR ''.'') s
      in case rest of
           [] \<Rightarrow> map_option of_nat (unsigned_dec ip)
         | _ # fp \<Rightarrow>
             if ip = [] \<and> fp = [] then None
             else if list_all is_digit ip \<and> list_all is_digit fp
             then Some (of_nat (nat_of_digits ip) + of_nat (nat_of_digits fp) / 10 ^ length fp)
             else None)"

definition float_dec :: "string \<Rightarrow> amount option" where
  "float_dec raw =
     (case strip raw of
        [] \<Rightarrow> None
      | c # cs \<Rightarrow>
          if c = CHR ''-'' then map_option uminus (unsigned_float_dec cs)
          else if c = CHR ''+'' then unsigned_float_dec cs
          else unsigned_float_dec (c # cs))"

text \<open>
  \<open>parse_number(raw)\<close>: \<open>(raw or "").strip().replace(",", ".")\<close>, then \<open>float\<close>.
  A falsy argument (\<open>None\<close>, \<open>""\<close>, \<open>0.0\<close>) becomes the empty string; a non-zero
  float has no method \<open>strip\<close>, which is an \<open>AttributeError\<close>.
\<close>

definition parse_number :: "(string \<Rightarrow> amount option) \<Rightarrow> pyval \<Rightarrow> error + amount" where
  "parse_number float raw =
     (case (case raw of
              PNone \<Rightarrow> Inr []
            | PStr s \<Rightarrow> Inr s
            | PFloat x \<Rightarrow> if x = 0 then Inr [] else Inl AttributeError) of
        Inl e \<Rightarrow> Inl e
      | Inr s \<Rightarrow>
          (case float (replace_comma (strip s)) of
             None \<Rightarrow> Inl ValueError
           | Some v \<Rightarrow> Inr v))"

text \<open>
  \<open>round(x, 2)\<close> on an exact number: the nearest multiple of 1/100, a tie going to
  the even one.
\<close>

definition round_half_even :: "rat \<Rightarrow> int" where
  "round_half_even y =
     (let f = \<lfloor>y\<rfloor>; d = y - of_int f
      in if d < 1 / 2 then f else if 1 / 2 < d then f + 1 else if even f then f else f + 1)"

definition round2 :: "amount \<Rightarrow> amount" where
  "round2 x = of_int (round_half_even (x * 100)) / 100"

text \<open>
  A Python \<open>dict\<close> is an association list in insertion order with distinct keys:
  \<open>d[k] = v\<close> overwrites the value of a key that is there and appends a new key.
\<close>

type_synonym ('k, 'v) dict = "('k \<times> 'v) list"

fun dict_set :: "('k, 'v) dict \<Rightarrow> 'k \<Rightarrow> 'v \<Rightarrow> ('k, 'v) dict" where
  "dict_set [] k v = [(k, v)]"
| "dict_set ((k', v') # d) k v = (if k' = k then (k, v) # d else (k', v') # dict_set d k v)"

definition dict_get :: "('k, 'v) dict \<Rightarrow> 'k \<Rightarrow> 'v \<Rightarrow> 'v" where
  "dict_get d k dflt = (case map_of d k of None \<Rightarrow> dflt | Some v \<Rightarrow> v)"

section \<open>The tables\<close>

record transaction =
  t_id :: int
  t_user_id :: int
  t_type :: string
  t_category :: "string option"
  t_amount :: amount
  t_payment_method :: string
  t_date :: string
  t_description :: string

record budget =
  b_id :: int
  b_user_id :: int
  b_category :: string
  b_amount :: amount

record goal =
  g_id :: int
  g_user_id :: int
  g_name :: string
  g_target :: amount
  g_current :: amount
  g_deadline :: "string option"

text \<open>
  The database: each table is the list of its rows in the order of their ids, which is
  the order \<open>.all()\<close> and \<open>.first()\<close> read them in.
\<close>

record store =
  transactions :: "transaction list"
  budgets :: "budget list"
  goals :: "goal list"

definition empty_store :: store where
  "empty_store = \<lparr>transactions = [], budgets = [], goals = []\<rparr>"

text \<open>The id SQLite gives a new row: one more than the largest id of the table.\<close>

definition next_id :: "int list \<Rightarrow> int" where
  "next_id ids = (if ids = [] then 1 else Max (set ids) + 1)"

record date =
  d_year :: int
  d_month :: int
  d_day :: int

text \<open>\<open>str(datetime.date.today())\<close>\<close>

definition str_date :: "date \<Rightarrow> string" where
  "str_date d = format_d 4 (d_year d) @ ''-'' @ format_d 2 (d_month d) @ ''-'' @ format_d 2 (d_day d)"


section \<open>The dashboard\<close>

text \<open>
  \<open>MONTHS_UA\<close>: the Ukrainian month names, keyed 1 to 12.  The names themselves are
  constructors here (sichen, lyutyi, ... in transliteration).
\<close>

datatype month_ua =
  Sichen | Lyutyi | Berezen | Kviten | Traven | Cherven |
  Lypen | Serpen | Veresen | Zhovten | Lystopad | Hruden

definition MONTHS_UA :: "int \<rightharpoonup> month_ua" where
  "MONTHS_UA = map_of
     [(1, Sichen), (2, Lyutyi), (3, Berezen), (4, Kviten), (5, Traven), (6, Cherven),
      (7, Lypen), (8, Serpen), (9, Veresen), (10, Zhovten), (11, Lystopad), (12, Hruden)]"

text \<open>The default category, the UTF-8 bytes of the Ukrainian word for "other".\<close>

definition OTHER :: string where
  "OTHER = [CHR 0xD0, CHR 0x86, CHR 0xD0, CHR 0xBD, CHR 0xD1, CHR 0x88, CHR 0xD0, CHR 0xB5]"

text \<open>
  Lines 154 to 163: \<open>(sel_month, sel_year)\<close> from the query arguments.  Both must be
  present and non-empty; a \<open>ValueError\<close> of either \<open>int\<close> selects today's month
  and year.  Nothing checks the range of what \<open>int\<close> returns.
\<close>

definition selected_period :: "(string \<Rightarrow> int option) \<Rightarrow> date \<Rightarrow> string option \<Rightarrow> string option \<Rightarrow> int \<times> int" where
  "selected_period int_of today m_arg y_arg =
     (case (m_arg, y_arg) of
        (Some m, Some y) \<Rightarrow>
          if m \<noteq> [] \<and> y \<noteq> [] then
            (case int_of m of
               None \<Rightarrow> (d_month today, d_year today)
             | Some sel_month \<Rightarrow>
                 (case int_of y of
                    None \<Rightarrow> (d_month today, d_year today)
                  | Some sel_year \<Rightarrow> (sel_month, sel_year)))
          else (d_month today, d_year today)
      | _ \<Rightarrow> (d_month today, d_year today))"

text \<open>Line 165: \<open>f"{sel_year}-{sel_month:02d}"\<close>\<close>

definition month_prefix :: "int \<Rightarrow> int \<Rightarrow> string" where
  "month_prefix sel_year sel_month = str_int sel_year @ ''-'' @ format_d 2 sel_month"

text \<open>Line 169: the transactions of the selected period.\<close>

definition month_tr :: "int \<Rightarrow> int \<Rightarrow> transaction list \<Rightarrow> transaction list" where
  "month_tr sel_year sel_month trs =
     filter (\<lambda>t. startswith (t_date t) (month_prefix sel_year sel_month)) trs"

definition income_sum :: "transaction list \<Rightarrow> amount" where
  "income_sum ts = sum_list (map t_amount (filter (\<lambda>t. t_type t = ''income'') ts))"

definition expenses_sum :: "transaction list \<Rightarrow> amount" where
  "expenses_sum ts = sum_list (map t_amount (filter (\<lambda>t. t_type t = ''expense'') ts))"

text \<open>\<open>t.category or OTHER\<close>\<close>

definition category_of :: "transaction \<Rightarrow> string" where
  "category_of t = str_or (t_category t) OTHER"

text \<open>Lines 177 to 181: the loop that fills \<open>exp_by_cat\<close>.\<close>

fun exp_by_cat :: "transaction list \<Rightarrow> (string, amount) dict \<Rightarrow> (string, amount) dict" where
  "exp_by_cat [] d = d"
| "exp_by_cat (t # ts) d =
     exp_by_cat ts
       (if t_type t = ''expense''
        then dict_set d (category_of t) (dict_get d (category_of t) 0 + t_amount t)
        else d)"

text \<open>Lines 184 to 187: the loop that fills \<open>daily\<close>.\<close>

definition sign_of :: "transaction \<Rightarrow> amount" where
  "sign_of t = (if t_type t = ''income'' then 1 else - 1)"

fun daily :: "transaction list \<Rightarrow> (string, amount) dict \<Rightarrow> (string, amount) dict" where
  "daily [] d = d"
| "daily (t # ts) d =
     daily ts (dict_set d (t_date t) (dict_get d (t_date t) 0 + sign_of t * t_amount t))"

text \<open>Line 196: \<open>{b.category: b.amount for b in budgets}\<close>\<close>

fun budget_map :: "budget list \<Rightarrow> (string, amount) dict \<Rightarrow> (string, amount) dict" where
  "budget_map [] d = d"
| "budget_map (b # bs) d = budget_map bs (dict_set d (b_category b) (b_amount b))"

text \<open>Lines 202 to 204: the loop over \<open>budget_map.items()\<close>.\<close>

fun spent_vs_budget :: "(string, amount) dict \<Rightarrow> (string, amount) dict \<Rightarrow> amount \<Rightarrow> amount" where
  "spent_vs_budget ebc [] acc = acc"
| "spent_vs_budget ebc ((cat, b_amt) # items) acc =
     spent_vs_budget ebc items (acc + min (dict_get ebc cat 0) b_amt)"

text \<open>Lines 199 to 209.\<close>

definition health :: "amount \<Rightarrow> amount \<Rightarrow> (string, amount) dict \<Rightarrow> (string, amount) dict \<Rightarrow> amount \<Rightarrow> amount" where
  "health income balance ebc bmap goals_savings =
     (if income > 0 then
        (let spend_eff = max 0 (min ((balance / income) * 100) 100);
             total_budget = sum_list (map snd bmap);
             svb = spent_vs_budget ebc bmap 0;
             budget_eff = (if total_budget > 0 then svb / total_budget * 100 else 100);
             saving_ratio = min ((goals_savings / income) * 100) 100
         in (spend_eff * (1 / 2)) + (budget_eff * (3 / 10)) + (saving_ratio * (1 / 5)))
      else 0)"

text \<open>Lines 168, 193 and 195: the rows of the logged-in user.\<close>

definition user_tr :: "store \<Rightarrow> int \<Rightarrow> transaction list" where
  "user_tr st uid = filter (\<lambda>t. t_user_id t = uid) (transactions st)"

definition user_goals :: "store \<Rightarrow> int \<Rightarrow> goal list" where
  "user_goals st uid = filter (\<lambda>g. g_user_id g = uid) (goals st)"

definition user_budgets :: "store \<Rightarrow> int \<Rightarrow> budget list" where
  "user_budgets st uid = filter (\<lambda>b. b_user_id b = uid) (budgets st)"

text \<open>
  What \<open>render_template\<close> receives (the user's currency apart, which no table of this
  model holds).
\<close>

record view =
  v_month :: "month_ua \<times> int"
  v_income :: amount
  v_expenses :: amount
  v_goals_savings :: amount
  v_balance :: amount
  v_health :: amount
  v_exp_labels :: "string list"
  v_exp_values :: "amount list"
  v_daily_labels :: "string list"
  v_daily_values :: "amount list"
  v_months :: "(int \<times> month_ua) list"
  v_years :: "int list"
  v_selected_month :: int
  v_selected_year :: int

text \<open>
  \<open>dashboard\<close> for the logged-in user \<open>uid\<close>.  \<open>MONTHS_UA[sel_month]\<close> in the call of
  \<open>render_template\<close> raises \<open>KeyError\<close> for a month outside 1 to 12; everything before
  it is pure.  \<open>daily[d]\<close> reads a key of \<open>daily\<close> itself.
\<close>

definition dashboard :: "(string \<Rightarrow> int option) \<Rightarrow> date \<Rightarrow> store \<Rightarrow> int \<Rightarrow> (string \<rightharpoonup> string) \<Rightarrow> error + view" where
  "dashboard int_of today st uid args =
     (let (sel_month, sel_year) = selected_period int_of today (args ''month'') (args ''year'');
          mtr = month_tr sel_year sel_month (user_tr st uid);
          income = income_sum mtr;
          expenses = expenses_sum mtr;
          balance = income - expenses;
          ebc = exp_by_cat mtr [];
          dly = daily mtr [];
          daily_labels = sort (map fst dly);
          daily_values = map (\<lambda>d. round2 (dict_get dly d 0)) daily_labels;
          goals_savings = sum_list (map g_current (user_goals st uid));
          bmap = budget_map (user_budgets st uid) [];
          h = health income balance ebc bmap goals_savings
      in case MONTHS_UA sel_month of
           None \<Rightarrow> Inl KeyError
         | Some name \<Rightarrow>
             Inr \<lparr>v_month = (name, sel_year),
                  v_income = income,
                  v_expenses = expenses,
                  v_goals_savings = goals_savings,
                  v_balance = balance,
                  v_health = h,
                  v_exp_labels = map fst ebc,
                  v_exp_values = map snd ebc,
                  v_daily_labels = daily_labels,
                  v_daily_values = daily_values,
                  v_months = [(1, Sichen), (2, Lyutyi), (3, Berezen), (4, Kviten), (5, Traven),
                              (6, Cherven), (7, Lypen), (8, Serpen), (9, Veresen), (10, Zhovten),
                              (11, Lystopad), (12, Hruden)],
                  v_years = [2023 .. d_year today + 1],
                  v_selected_month = sel_month,
                  v_selected_year = sel_year\<rparr>)"

section \<open>The form handlers\<close>

text \<open>
  The handlers that write to the tables.  The pages that only read (\<open>transactions_view\<close>,
  \<open>budget\<close>, \<open>savings\<close>), the session (\<open>login\<close>, \<open>register\<close>, \<open>logout\<close>) and
  \<open>check_db\<close> are not part of this development.
  A handler runs for the logged-in user \<open>uid\<close> (\<open>login_required\<close> and
  \<open>current_user\<close>) on the form it was posted.  It returns the committed store with its
  response, the flashed messages and the redirect; or the exception that escapes it, in
  which case nothing was committed.  The flashed texts are constructors, named for what
  the Ukrainian text says.
\<close>

datatype flash_category = Success | Danger | Info

datatype flash_msg =
  Transaction_amount_must_be_number | Transaction_added | Transaction_deleted |
  Budget_amount_must_be_number | Budget_saved | Category_not_found | Category_updated |
  Category_deleted | Category_not_deleted |
  Goal_amounts_must_be_numbers | Goal_added | Goal_not_found | Goal_updated |
  Goal_deleted | Goal_not_deleted

datatype endpoint = Transactions_view | Budget_page | Savings_page

record response =
  flashes :: "(flash_msg \<times> flash_category) list"
  redirect :: endpoint

type_synonym form = "string \<rightharpoonup> string"

text \<open>\<open>request.form.get(key) or None\<close>\<close>

definition or_None :: "string option \<Rightarrow> string option" where
  "or_None a = (case a of None \<Rightarrow> None | Some s \<Rightarrow> if s = [] then None else Some s)"

definition add_transaction :: "(string \<Rightarrow> amount option) \<Rightarrow> date \<Rightarrow> store \<Rightarrow> int \<Rightarrow> form \<Rightarrow> error + store \<times> response" where
  "add_transaction float today st uid frm =
     (case frm ''amount'' of
        None \<Rightarrow> Inl BadRequestKeyError
      | Some raw \<Rightarrow>
          (case parse_number float (PStr raw) of
             Inl e \<Rightarrow>
               if e = ValueError
               then Inr (st, \<lparr>flashes = [(Transaction_amount_must_be_number, Danger)],
                              redirect = Transactions_view\<rparr>)
               else Inl e
           | Inr amount \<Rightarrow>
               (let category = str_or (frm ''category_select'') (str_or (frm ''category'') OTHER)
                in case frm ''type'' of
                     None \<Rightarrow> Inl BadRequestKeyError
                   | Some ty \<Rightarrow>
                       (let tr = \<lparr>t_id = next_id (map t_id (transactions st)),
                                  t_user_id = uid,
                                  t_type = ty,
                                  t_category = Some category,
                                  t_amount = amount,
                                  t_payment_method = (case frm ''payment'' of None \<Rightarrow> ''Cash'' | Some p \<Rightarrow> p),
                                  t_date = str_or (frm ''date'') (str_date today),
                                  t_description = str_or (frm ''description'') []\<rparr>
                        in Inr (st\<lparr>transactions := transactions st @ [tr]\<rparr>,
                                \<lparr>flashes = [(Transaction_added, Success)],
                                 redirect = Transactions_view\<rparr>)))))"

definition delete_transaction :: "store \<Rightarrow> int \<Rightarrow> int \<Rightarrow> error + store \<times> response" where
  "delete_transaction st uid tid =
     (case find (\<lambda>t. t_id t = tid) (transactions st) of
        None \<Rightarrow> Inr (st, \<lparr>flashes = [], redirect = Transactions_view\<rparr>)
      | Some tr \<Rightarrow>
          if t_user_id tr = uid
          then Inr (st\<lparr>transactions := filter (\<lambda>t. t_id t \<noteq> t_id tr) (transactions st)\<rparr>,
                    \<lparr>flashes = [(Transaction_deleted, Info)], redirect = Transactions_view\<rparr>)
          else Inr (st, \<lparr>flashes = [], redirect = Transactions_view\<rparr>))"

definition save_budget_route :: "(string \<Rightarrow> amount option) \<Rightarrow> store \<Rightarrow> int \<Rightarrow> form \<Rightarrow> error + store \<times> response" where
  "save_budget_route float st uid frm =
     (case frm ''category'' of
        None \<Rightarrow> Inl BadRequestKeyError
      | Some c \<Rightarrow>
          (let category = strip c
           in case frm ''amount'' of
                None \<Rightarrow> Inl BadRequestKeyError
              | Some raw \<Rightarrow>
                  (case parse_number float (PStr raw) of
                     Inl e \<Rightarrow>
                       if e = ValueError
                       then Inr (st, \<lparr>flashes = [(Budget_amount_must_be_number, Danger)],
                                      redirect = Budget_page\<rparr>)
                       else Inl e
                   | Inr amount \<Rightarrow>
                       (case find (\<lambda>b. b_user_id b = uid \<and> b_category b = category) (budgets st) of
                          Some existing \<Rightarrow>
                            Inr (st\<lparr>budgets :=
                                      map (\<lambda>b. if b_id b = b_id existing then b\<lparr>b_amount := amount\<rparr> else b)
                                        (budgets st)\<rparr>,
                                 \<lparr>flashes = [(Budget_saved, Success)], redirect = Budget_page\<rparr>)
                        | None \<Rightarrow>
                            Inr (st\<lparr>budgets := budgets st @
                                      [\<lparr>b_id = next_id (map b_id (budgets st)), b_user_id = uid,
                                        b_category = category, b_amount = amount\<rparr>]\<rparr>,
                                 \<lparr>flashes = [(Budget_saved, Success)], redirect = Budget_page\<rparr>)))))"

definition update_budget :: "(string \<Rightarrow> amount option) \<Rightarrow> store \<Rightarrow> int \<Rightarrow> form \<Rightarrow> error + store \<times> response" where
  "update_budget float st uid frm =
     (case frm ''old_category'' of
        None \<Rightarrow> Inl BadRequestKeyError
      | Some old_category \<Rightarrow>
          (case frm ''category'' of
             None \<Rightarrow> Inl BadRequestKeyError
           | Some c \<Rightarrow>
               (let new_category = strip c
                in case frm ''amount'' of
                     None \<Rightarrow> Inl BadRequestKeyError
                   | Some raw \<Rightarrow>
                       (case parse_number float (PStr raw) of
                          Inl e \<Rightarrow>
                            if e = ValueError
                            then Inr (st, \<lparr>flashes = [(Budget_amount_must_be_number, Danger)],
                                           redirect = Budget_page\<rparr>)
                            else Inl e
                        | Inr amount \<Rightarrow>
                            (case find (\<lambda>b. b_user_id b = uid \<and> b_category b = old_category) (budgets st) of
                               None \<Rightarrow>
                                 Inr (st, \<lparr>flashes = [(Category_not_found, Danger)],
                                           redirect = Budget_page\<rparr>)
                             | Some b0 \<Rightarrow>
                                 Inr (st\<lparr>budgets :=
                                           map (\<lambda>b. if b_id b = b_id b0
                                                     then b\<lparr>b_category := new_category, b_amount := amount\<rparr>
                                                     else b)
                                             (budgets st)\<rparr>,
                                      \<lparr>flashes = [(Category_updated, Success)],
                                       redirect = Budget_page\<rparr>))))))"

definition delete_budget :: "store \<Rightarrow> int \<Rightarrow> string \<Rightarrow> error + store \<times> response" where
  "delete_budget st uid cat =
     (case find (\<lambda>b. b_user_id b = uid \<and> b_category b = cat) (budgets st) of
        Some b0 \<Rightarrow>
          Inr (st\<lparr>budgets := filter (\<lambda>b. b_id b \<noteq> b_id b0) (budgets st)\<rparr>,
               \<lparr>flashes = [(Category_deleted, Info)], redirect = Budget_page\<rparr>)
      | None \<Rightarrow>
          Inr (st, \<lparr>flashes = [(Category_not_deleted, Danger)], redirect = Budget_page\<rparr>))"

definition add_savings :: "(string \<Rightarrow> amount option) \<Rightarrow> store \<Rightarrow> int \<Rightarrow> form \<Rightarrow> error + store \<times> response" where
  "add_savings float st uid frm =
     (case frm ''name'' of
        None \<Rightarrow> Inl BadRequestKeyError
      | Some name \<Rightarrow>
          (let deadline = or_None (frm ''deadline'')
           in case frm ''target'' of
                None \<Rightarrow> Inl BadRequestKeyError
              | Some raw_target \<Rightarrow>
                  (case parse_number float (PStr raw_target) of
                     Inl e \<Rightarrow>
                       if e = ValueError
                       then Inr (st, \<lparr>flashes = [(Goal_amounts_must_be_numbers, Danger)],
                                      redirect = Savings_page\<rparr>)
                       else Inl e
                   | Inr target \<Rightarrow>
                       (case parse_number float
                               (PStr (case frm ''current'' of None \<Rightarrow> ''0'' | Some s \<Rightarrow> s)) of
                          Inl e \<Rightarrow>
                            if e = ValueError
                            then Inr (st, \<lparr>flashes = [(Goal_amounts_must_be_numbers, Danger)],
                                           redirect = Savings_page\<rparr>)
                            else Inl e
                        | Inr current \<Rightarrow>
                            Inr (st\<lparr>goals := goals st @
                                      [\<lparr>g_id = next_id (map g_id (goals st)), g_user_id = uid,
                                        g_name = name, g_target = target, g_current = current,
                                        g_deadline = deadline\<rparr>]\<rparr>,
                                 \<lparr>flashes = [(Goal_added, Success)], redirect = Savings_page\<rparr>)))))"

text \<open>
  \<open>update_goal\<close>: \<open>request.form.get("target", g.target)\<close> is the posted string, or the
  float of the row when the field is absent; the same for \<open>current\<close>.  Only
  \<open>ValueError\<close> is caught.
\<close>

definition update_goal :: "(string \<Rightarrow> amount option) \<Rightarrow> store \<Rightarrow> int \<Rightarrow> int \<Rightarrow> form \<Rightarrow> error + store \<times> response" where
  "update_goal float st uid gid frm =
     (case find (\<lambda>g. g_id g = gid) (goals st) of
        None \<Rightarrow> Inr (st, \<lparr>flashes = [(Goal_not_found, Danger)], redirect = Savings_page\<rparr>)
      | Some g \<Rightarrow>
          if g_user_id g \<noteq> uid
          then Inr (st, \<lparr>flashes = [(Goal_not_found, Danger)], redirect = Savings_page\<rparr>)
          else
            (let name = (case frm ''name'' of None \<Rightarrow> g_name g | Some s \<Rightarrow> s);
                 deadline = or_None (frm ''deadline'')
             in case parse_number float
                       (case frm ''target'' of None \<Rightarrow> PFloat (g_target g) | Some s \<Rightarrow> PStr s) of
                  Inl e \<Rightarrow>
                    if e = ValueError
                    then Inr (st, \<lparr>flashes = [(Goal_amounts_must_be_numbers, Danger)],
                                   redirect = Savings_page\<rparr>)
                    else Inl e
                | Inr target \<Rightarrow>
                    (case parse_number float
                            (case frm ''current'' of None \<Rightarrow> PFloat (g_current g) | Some s \<Rightarrow> PStr s) of
                       Inl e \<Rightarrow>
                         if e = ValueError
                         then Inr (st, \<lparr>flashes = [(Goal_amounts_must_be_numbers, Danger)],
                                        redirect = Savings_page\<rparr>)
                         else Inl e
                     | Inr current \<Rightarrow>
                         Inr (st\<lparr>goals :=
                                   map (\<lambda>g'. if g_id g' = g_id g
                                              then g'\<lparr>g_name := name, g_target := target,
                                                      g_current := current, g_deadline := deadline\<rparr>
                                              else g')
                                     (goals st)\<rparr>,
                              \<lparr>flashes = [(Goal_updated, Success)], redirect = Savings_page\<rparr>))))"

definition delete_goal :: "store \<Rightarrow> int \<Rightarrow> int \<Rightarrow> error + store \<times> response" where
  "delete_goal st uid gid =
     (case find (\<lambda>g. g_id g = gid) (goals st) of
        None \<Rightarrow> Inr (st, \<lparr>flashes = [(Goal_not_deleted, Danger)], redirect = Savings_page\<rparr>)
      | Some g \<Rightarrow>
          if g_user_id g = uid
          then Inr (st\<lparr>goals := filter (\<lambda>g'. g_id g' \<noteq> g_id g) (goals st)\<rparr>,
                    \<lparr>flashes = [(Goal_deleted, Info)], redirect = Savings_page\<rparr>)
          else Inr (st, \<lparr>flashes = [(Goal_not_deleted, Danger)], redirect = Savings_page\<rparr>))"

text \<open>
  The requests that write, and the store after a sequence of them: a request whose
  handler raises commits nothing.
\<close>

datatype request =
  Add_transaction int form
| Delete_transaction int int
| Save_budget int form
| Update_budget int form
| Delete_budget int string
| Add_savings int form
| Update_goal int int form
| Delete_goal int int

definition handle :: "(string \<Rightarrow> amount option) \<Rightarrow> date \<Rightarrow> store \<Rightarrow> request \<Rightarrow> error + store \<times> response" where
  "handle float today st req =
     (case req of
        Add_transaction uid frm \<Rightarrow> add_transaction float today st uid frm
      | Delete_transaction uid tid \<Rightarrow> delete_transaction st uid tid
      | Save_budget uid frm \<Rightarrow> save_budget_route float st uid frm
      | Update_budget uid frm \<Rightarrow> update_budget float st uid frm
      | Delete_budget uid cat \<Rightarrow> delete_budget st uid cat
      | Add_savings uid frm \<Rightarrow> add_savings float st uid frm
      | Update_goal uid gid frm \<Rightarrow> update_goal float st uid gid frm
      | Delete_goal uid gid \<Rightarrow> delete_goal st uid gid)"

definition step :: "(string \<Rightarrow> amount option) \<Rightarrow> date \<Rightarrow> store \<Rightarrow> request \<Rightarrow> store" where
  "step float today st req = (case handle float today st req of Inl e \<Rightarrow> st | Inr (st', r) \<Rightarrow> st')"

definition run :: "(string \<Rightarrow> amount option) \<Rightarrow> date \<Rightarrow> request list \<Rightarrow> store" where
  "run float today reqs = foldl (step float today) empty_store reqs"

section \<open>The specification's aggregates\<close>

text \<open>
  The quantities of the specification's section 4.1, written from its words over the
  rows of the period, to be compared with what the loops of \<open>dashboard\<close> compute.
\<close>

definition spec_income :: "transaction list \<Rightarrow> amount" where
  "spec_income ts = sum_list (map t_amount (filter (\<lambda>t. t_type t = ''income'') ts))"

definition spec_balance :: "transaction list \<Rightarrow> amount" where
  "spec_balance ts =
     spec_income ts - sum_list (map t_amount (filter (\<lambda>t. t_type t = ''expense'') ts))"

definition spec_total_savings :: "goal list \<Rightarrow> amount" where
  "spec_total_savings gs = sum_list (map g_current gs)"

text \<open>The summed expense amount of a category, the blank category counted as the default one.\<close>

definition spec_expenses_by_category :: "transaction list \<Rightarrow> string \<Rightarrow> amount" where
  "spec_expenses_by_category ts cat =
     sum_list (map t_amount (filter (\<lambda>t. t_type t = ''expense'' \<and> category_of t = cat) ts))"

text \<open>The limit of a budget category: of its last row, should the category have several.\<close>

definition spec_budget_limit :: "budget list \<Rightarrow> string \<Rightarrow> amount" where
  "spec_budget_limit bs cat =
     (case filter (\<lambda>b. b_category b = cat) bs of [] \<Rightarrow> 0 | b # rest \<Rightarrow> b_amount (last (b # rest)))"

definition spec_budget_categories :: "budget list \<Rightarrow> string list" where
  "spec_budget_categories bs = remdups (map b_category bs)"

definition spec_clamp :: "amount \<Rightarrow> amount \<Rightarrow> amount \<Rightarrow> amount" where
  "spec_clamp x lo hi = max lo (min x hi)"

definition spec_budget_efficiency :: "transaction list \<Rightarrow> budget list \<Rightarrow> amount" where
  "spec_budget_efficiency ts bs =
     (let total = sum_list (map (spec_budget_limit bs) (spec_budget_categories bs))
      in if total > 0
         then sum_list (map (\<lambda>cat. min (spec_expenses_by_category ts cat) (spec_budget_limit bs cat))
                            (spec_budget_categories bs)) / total * 100
         else 100)"

definition spec_health :: "transaction list \<Rightarrow> budget list \<Rightarrow> goal list \<Rightarrow> amount" where
  "spec_health ts bs gs =
     1 / 2 * spec_clamp (spec_balance ts / spec_income ts * 100) 0 100
     + 3 / 10 * spec_budget_efficiency ts bs
     + 1 / 5 * min (spec_total_savings gs / spec_income ts * 100) 100"

section \<open>Concrete stores\<close>

definition today0 :: date where
  "today0 = \<lparr>d_year = 2026, d_month = 11, d_day = 3\<rparr>"

definition may_2024 :: "string \<rightharpoonup> string" where
  "may_2024 = [''month'' \<mapsto> ''5'', ''year'' \<mapsto> ''2024'']"

text \<open>
  The scenario of the specification: income 1000, two expenses on food of 200 and 100, a
  food budget of 250, goals holding 100, all of user 1 in May 2024.
\<close>

definition scenario :: store where
  "scenario =
     \<lparr>transactions =
        [\<lparr>t_id = 1, t_user_id = 1, t_type = ''income'', t_category = Some ''salary'',
          t_amount = 1000, t_payment_method = ''Cash'', t_date = ''2024-05-01'', t_description = []\<rparr>,
         \<lparr>t_id = 2, t_user_id = 1, t_type = ''expense'', t_category = Some ''food'',
          t_amount = 200, t_payment_method = ''Cash'', t_date = ''2024-05-02'', t_description = []\<rparr>,
         \<lparr>t_id = 3, t_user_id = 1, t_type = ''expense'', t_category = Some ''food'',
          t_amount = 100, t_payment_method = ''Cash'', t_date = ''2024-05-03'', t_description = []\<rparr>],
      budgets = [\<lparr>b_id = 1, b_user_id = 1, b_category = ''food'', b_amount = 250\<rparr>],
      goals = [\<lparr>g_id = 1, g_user_id = 1, g_name = ''car'', g_target = 5000, g_current = 100,
                g_deadline = None\<rparr>]\<rparr>"

definition scenario_view :: view where
  "scenario_view =
     \<lparr>v_month = (Traven, 2024), v_income = 1000, v_expenses = 300, v_goals_savings = 100,
      v_balance = 700, v_health = 67,
      v_exp_labels = [''food''], v_exp_values = [300],
      v_daily_labels = [''2024-05-01'', ''2024-05-02'', ''2024-05-03''],
      v_daily_values = [1000, - 200, - 100],
      v_months = [(1, Sichen), (2, Lyutyi), (3, Berezen), (4, Kviten), (5, Traven),
                  (6, Cherven), (7, Lypen), (8, Serpen), (9, Veresen), (10, Zhovten),
                  (11, Lystopad), (12, Hruden)],
      v_years = [2023, 2024, 2025, 2026, 2027],
      v_selected_month = 5, v_selected_year = 2024\<rparr>"

text \<open>A user whose only goal holds a negative amount, as \<open>add_savings\<close> accepts it.\<close>

definition negative_savings :: store where
  "negative_savings =
     \<lparr>transactions =
        [\<lparr>t_id = 1, t_user_id = 1, t_type = ''income'', t_category = Some ''salary'',
          t_amount = 1000, t_payment_method = ''Cash'', t_date = ''2024-05-01'', t_description = []\<rparr>],
      budgets = [],
      goals = [\<lparr>g_id = 1, g_user_id = 1, g_name = ''debt'', g_target = 0, g_current = - 5000,
                g_deadline = None\<rparr>]\<rparr>"

definition negative_savings_requests :: "request list" where
  "negative_savings_requests =
     [Add_transaction 1 [''amount'' \<mapsto> ''1000'', ''type'' \<mapsto> ''income'',
                         ''category'' \<mapsto> ''salary'', ''date'' \<mapsto> ''2024-05-01''],
      Add_savings 1 [''name'' \<mapsto> ''debt'', ''target'' \<mapsto> ''0'', ''current'' \<mapsto> ''-5000'']]"

text \<open>
  The net of a day as the loop of \<open>daily\<close> signs it: the amounts of type income added,
  every other amount subtracted.  \<open>spec_daily_net\<close> is the net in the words of the
  specification: income added, expense subtracted.
\<close>

definition net_of_day :: "transaction list \<Rightarrow> string \<Rightarrow> amount" where
  "net_of_day ts d =
     sum_list (map t_amount (filter (\<lambda>t. t_date t = d \<and> t_type t = ''income'') ts))
     - sum_list (map t_amount (filter (\<lambda>t. t_date t = d \<and> t_type t \<noteq> ''income'') ts))"

definition spec_daily_net :: "transaction list \<Rightarrow> string \<Rightarrow> amount" where
  "spec_daily_net ts d =
     sum_list (map t_amount (filter (\<lambda>t. t_date t = d \<and> t_type t = ''income'') ts))
     - sum_list (map t_amount (filter (\<lambda>t. t_date t = d \<and> t_type t = ''expense'') ts))"

text \<open>The daily scenario of the specification, the later day stored first.\<close>

definition daily_example :: store where
  "daily_example =
     \<lparr>transactions =
        [\<lparr>t_id = 1, t_user_id = 1, t_type = ''expense'', t_category = Some ''food'',
          t_amount = 20, t_payment_method = ''Cash'', t_date = ''2024-05-03'', t_description = []\<rparr>,
         \<lparr>t_id = 2, t_user_id = 1, t_type = ''income'', t_category = Some ''salary'',
          t_amount = 50, t_payment_method = ''Cash'', t_date = ''2024-05-01'', t_description = []\<rparr>],
      budgets = [], goals = []\<rparr>"

text \<open>A transaction whose type is neither income nor expense, as \<open>add_transaction\<close> stores it.\<close>

definition transfer_store :: store where
  "transfer_store =
     \<lparr>transactions =
        [\<lparr>t_id = 1, t_user_id = 1, t_type = ''transfer'', t_category = Some ''bank'',
          t_amount = 5, t_payment_method = ''Cash'', t_date = ''2024-05-01'', t_description = []\<rparr>],
      budgets = [], goals = []\<rparr>"

definition transfer_requests :: "request list" where
  "transfer_requests =
     [Add_transaction 1 [''amount'' \<mapsto> ''5'', ''type'' \<mapsto> ''transfer'',
                         ''category'' \<mapsto> ''bank'', ''date'' \<mapsto> ''2024-05-01'']]"

text \<open>Query arguments that \<open>int\<close> reads, with a month that is no key of \<open>MONTHS_UA\<close>.\<close>

definition month_13 :: "string \<rightharpoonup> string" where
  "month_13 = [''month'' \<mapsto> ''13'', ''year'' \<mapsto> ''2024'']"

definition month_0 :: "string \<rightharpoonup> string" where
  "month_0 = [''month'' \<mapsto> ''0'', ''year'' \<mapsto> ''2024'']"

text \<open>
  The period prefix in the words of the specification, \<open>{year:04d}-{month:02d}\<close>, and
  its filter on the first 7 characters of the date.
\<close>

definition spec_period_prefix :: "int \<Rightarrow> int \<Rightarrow> string" where
  "spec_period_prefix year month = format_d 4 year @ ''-'' @ format_d 2 month"

definition spec_period_tr :: "int \<Rightarrow> int \<Rightarrow> transaction list \<Rightarrow> transaction list" where
  "spec_period_tr year month trs =
     filter (\<lambda>t. take 7 (t_date t) = spec_period_prefix year month) trs"

text \<open>An income of May 999, dated as \<open>str(datetime.date(999, 5, 1))\<close> prints it.\<close>

definition year_999 :: store where
  "year_999 =
     \<lparr>transactions =
        [\<lparr>t_id = 1, t_user_id = 1, t_type = ''income'', t_category = Some ''tithe'',
          t_amount = 10, t_payment_method = ''Cash'', t_date = ''0999-05-01'', t_description = []\<rparr>],
      budgets = [], goals = []\<rparr>"

definition may_999 :: "string \<rightharpoonup> string" where
  "may_999 = [''month'' \<mapsto> ''5'', ''year'' \<mapsto> ''999'']"

text \<open>A transaction and a goal of user 2, for requests of user 1.\<close>

definition two_users :: store where
  "two_users =
     \<lparr>transactions =
        [\<lparr>t_id = 7, t_user_id = 2, t_type = ''expense'', t_category = Some ''food'',
          t_amount = 30, t_payment_method = ''Cash'', t_date = ''2024-05-01'', t_description = []\<rparr>],
      budgets = [],
      goals = [\<lparr>g_id = 3, g_user_id = 2, g_name = ''bike'', g_target = 900, g_current = 40,
                g_deadline = None\<rparr>]\<rparr>"

text \<open>A goal of user 1 with a target and a current amount that are not 0.\<close>

definition own_goal :: store where
  "own_goal =
     \<lparr>transactions = [], budgets = [],
      goals = [\<lparr>g_id = 1, g_user_id = 1, g_name = ''car'', g_target = 100, g_current = 20,
                g_deadline = None\<rparr>]\<rparr>"

text \<open>Two budgets of user 1, saved one after the other, and the form that renames the second.\<close>

definition two_budgets_requests :: "request list" where
  "two_budgets_requests =
     [Save_budget 1 [''category'' \<mapsto> ''food'', ''amount'' \<mapsto> ''100''],
      Save_budget 1 [''category'' \<mapsto> ''rent'', ''amount'' \<mapsto> ''500'']]"

definition two_budgets :: store where
  "two_budgets =
     \<lparr>transactions = [],
      budgets = [\<lparr>b_id = 1, b_user_id = 1, b_category = ''food'', b_amount = 100\<rparr>,
                 \<lparr>b_id = 2, b_user_id = 1, b_category = ''rent'', b_amount = 500\<rparr>],
      goals = []\<rparr>"

definition rename_rent_to_food :: form where
  "rename_rent_to_food =
     [''old_category'' \<mapsto> ''rent'', ''category'' \<mapsto> ''food'', ''amount'' \<mapsto> ''500'']"




text \<open>The two budgets after the second was renamed to the category of the first.\<close>

definition two_food_budgets :: store where
  "two_food_budgets =
     \<lparr>transactions = [],
      budgets = [\<lparr>b_id = 1, b_user_id = 1, b_category = ''food'', b_amount = 100\<rparr>,
                 \<lparr>b_id = 2, b_user_id = 1, b_category = ''food'', b_amount = 500\<rparr>],
      goals = []\<rparr>"

section \<open>Dictionaries\<close>

lemma map_of_dict_set: "map_of (dict_set d k v) = (map_of d)(k \<mapsto> v)"
  by (induction d k v rule: dict_set.induct) auto

lemma dict_get_dict_set:
  "dict_get (dict_set d k v) k' dflt = (if k' = k then v else dict_get d k' dflt)"
  by (simp add: dict_get_def map_of_dict_set)

lemma keys_dict_set: "fst ` set (dict_set d k v) = insert k (fst ` set d)"
  by (induction d k v rule: dict_set.induct) auto

lemma distinct_dict_set: "distinct (map fst d) \<Longrightarrow> distinct (map fst (dict_set d k v))"
  by (induction d k v rule: dict_set.induct) (auto simp: keys_dict_set)

text \<open>A sum over the items of a dictionary is a sum over its keys.\<close>

lemma sum_list_dict:
  assumes "distinct (map fst al)"
  shows "sum_list (map (\<lambda>(c, a). f c a) al) = (\<Sum>c \<in> set (map fst al). f c (the (map_of al c)))"
proof -
  have "map (\<lambda>(c, a). f c a) al = map (\<lambda>c. f c (the (map_of al c))) (map fst al)"
    using assms by (auto simp: map_of_is_SomeI)
  then have "sum_list (map (\<lambda>(c, a). f c a) al) =
             sum_list (map (\<lambda>c. f c (the (map_of al c))) (map fst al))"
    by (rule arg_cong)
  also have "\<dots> = (\<Sum>c \<in> set (map fst al). f c (the (map_of al c)))"
    using assms by (rule sum_list_distinct_conv_sum_set)
  finally show ?thesis .
qed

lemma sum_list_remdups: "sum_list (map f (remdups xs)) = (\<Sum>c \<in> set xs. f c)"
  using sum_list_distinct_conv_sum_set [of "remdups xs" f] by simp

section \<open>The loops of the dashboard\<close>

lemma dict_get_exp_by_cat:
  "dict_get (exp_by_cat ts d) c 0 = dict_get d c 0 + spec_expenses_by_category ts c"
  by (induction ts arbitrary: d) (auto simp: dict_get_dict_set spec_expenses_by_category_def)

lemma distinct_budget_map: "distinct (map fst d) \<Longrightarrow> distinct (map fst (budget_map bs d))"
  by (induction bs arbitrary: d) (auto simp: distinct_dict_set)

lemma keys_budget_map: "fst ` set (budget_map bs d) = fst ` set d \<union> b_category ` set bs"
  by (induction bs arbitrary: d) (simp_all add: keys_dict_set)

lemma map_of_budget_map:
  "map_of (budget_map bs d) c =
     (case filter (\<lambda>b. b_category b = c) bs of
        [] \<Rightarrow> map_of d c
      | b # rest \<Rightarrow> Some (b_amount (last (b # rest))))"
  by (induction bs arbitrary: d) (auto simp: map_of_dict_set split: list.splits)

lemma limit_budget_map:
  "c \<in> b_category ` set bs \<Longrightarrow> the (map_of (budget_map bs []) c) = spec_budget_limit bs c"
  by (auto simp: map_of_budget_map spec_budget_limit_def filter_empty_conv split: list.splits)

lemma spent_vs_budget_sum:
  "spent_vs_budget ebc items acc = acc + sum_list (map (\<lambda>(c, a). min (dict_get ebc c 0) a) items)"
  by (induction ebc items acc rule: spent_vs_budget.induct) auto

lemma total_budget_spec:
  "sum_list (map snd (budget_map bs [])) =
   sum_list (map (spec_budget_limit bs) (spec_budget_categories bs))"
proof -
  have d: "distinct (map fst (budget_map bs []))"
    by (simp add: distinct_budget_map)
  have "sum_list (map snd (budget_map bs [])) = sum_list (map (\<lambda>(c, a). a) (budget_map bs []))"
    by (rule arg_cong [where f = sum_list]) auto
  also have "\<dots> = (\<Sum>c \<in> set (map fst (budget_map bs [])). the (map_of (budget_map bs []) c))"
    using sum_list_dict [OF d, of "\<lambda>c a. a"] by simp
  also have "\<dots> = (\<Sum>c \<in> set (map b_category bs). spec_budget_limit bs c)"
    by (simp add: keys_budget_map limit_budget_map)
  finally show ?thesis
    by (simp add: spec_budget_categories_def sum_list_remdups)
qed

lemma spent_vs_budget_spec:
  "spent_vs_budget (exp_by_cat ts []) (budget_map bs []) 0 =
     sum_list (map (\<lambda>cat. min (spec_expenses_by_category ts cat) (spec_budget_limit bs cat))
                   (spec_budget_categories bs))"
proof -
  have d: "distinct (map fst (budget_map bs []))"
    by (simp add: distinct_budget_map)
  have e: "dict_get (exp_by_cat ts []) c 0 = spec_expenses_by_category ts c" for c
    using dict_get_exp_by_cat [of ts "[]" c] by (simp add: dict_get_def)
  have "spent_vs_budget (exp_by_cat ts []) (budget_map bs []) 0 =
        sum_list (map (\<lambda>(c, a). min (spec_expenses_by_category ts c) a) (budget_map bs []))"
    by (simp add: spent_vs_budget_sum e)
  also have "\<dots> = (\<Sum>c \<in> set (map fst (budget_map bs [])).
                      min (spec_expenses_by_category ts c) (the (map_of (budget_map bs []) c)))"
    using sum_list_dict [OF d, of "\<lambda>c a. min (spec_expenses_by_category ts c) a"] by simp
  also have "\<dots> = (\<Sum>c \<in> set (map b_category bs).
                      min (spec_expenses_by_category ts c) (spec_budget_limit bs c))"
    by (simp add: keys_budget_map limit_budget_map)
  finally show ?thesis
    by (simp add: spec_budget_categories_def sum_list_remdups)
qed

lemma health_spec:
  "0 < income_sum ts \<Longrightarrow>
   health (income_sum ts) (income_sum ts - expenses_sum ts) (exp_by_cat ts []) (budget_map bs [])
     (sum_list (map g_current gs)) = spec_health ts bs gs"
  by (simp add: health_def spec_health_def spec_budget_efficiency_def spec_clamp_def Let_def
      total_budget_spec spent_vs_budget_spec spec_income_def spec_balance_def
      spec_total_savings_def income_sum_def expenses_sum_def)

section \<open>What the dashboard returns\<close>

lemma dashboard_Inr:
  assumes "dashboard int_of today st uid args = Inr v"
  shows "(v_selected_month v, v_selected_year v) =
           selected_period int_of today (args ''month'') (args ''year'')"
    and "MONTHS_UA (v_selected_month v) \<noteq> None"
    and "v_income v = income_sum (month_tr (v_selected_year v) (v_selected_month v) (user_tr st uid))"
    and "v_expenses v = expenses_sum (month_tr (v_selected_year v) (v_selected_month v) (user_tr st uid))"
    and "v_balance v = v_income v - v_expenses v"
    and "v_goals_savings v = sum_list (map g_current (user_goals st uid))"
    and "v_health v =
           health (v_income v) (v_balance v)
             (exp_by_cat (month_tr (v_selected_year v) (v_selected_month v) (user_tr st uid)) [])
             (budget_map (user_budgets st uid) []) (v_goals_savings v)"
    and "v_daily_labels v =
           sort (map fst (daily (month_tr (v_selected_year v) (v_selected_month v) (user_tr st uid)) []))"
    and "v_daily_values v =
           map (\<lambda>d. round2 (dict_get
                  (daily (month_tr (v_selected_year v) (v_selected_month v) (user_tr st uid)) []) d 0))
               (v_daily_labels v)"
  using assms
  by (auto simp: dashboard_def Let_def split: prod.splits option.splits)

section \<open>The scenario of the specification\<close>

lemma int_dec_numerals:
  "int_dec ''5'' = Some 5" "int_dec ''2024'' = Some 2024" "int_dec ''13'' = Some 13"
  "int_dec ''0'' = Some 0" "int_dec ''999'' = Some 999"
  by (simp_all add: int_dec_def strip_def isspace_def unsigned_dec_def is_digit_def
      nat_of_digits_def digit_val_def)

lemma month_prefix_2024_05: "month_prefix 2024 5 = ''2024-05''"
  by (simp add: month_prefix_def str_int_def format_d_def digits.simps digit_char_def)

lemma selected_may_2024:
  "selected_period int_dec today (may_2024 ''month'') (may_2024 ''year'') = (5, 2024)"
  by (simp add: selected_period_def may_2024_def int_dec_numerals)

lemma round2_of_int: "round2 (of_int k) = of_int k"
  by (simp add: round2_def round_half_even_def Let_def)

lemma dashboard_scenario: "dashboard int_dec today0 scenario 1 may_2024 = Inr scenario_view"
proof -
  have tr: "month_tr 2024 5 (user_tr scenario 1) = transactions scenario"
    by (simp add: month_tr_def user_tr_def month_prefix_2024_05 scenario_def startswith_def)
  have inc: "income_sum (transactions scenario) = 1000"
    and exps: "expenses_sum (transactions scenario) = 300"
    by (simp_all add: income_sum_def expenses_sum_def scenario_def)
  have ebc: "exp_by_cat (transactions scenario) [] = [(''food'', 300)]"
    by (simp add: scenario_def category_of_def str_or_def dict_get_def)
  have dly: "daily (transactions scenario) [] =
      [(''2024-05-01'', 1000), (''2024-05-02'', - 200), (''2024-05-03'', - 100)]"
    by (simp add: scenario_def sign_of_def dict_get_def)
  have bm: "budget_map (user_budgets scenario 1) [] = [(''food'', 250)]"
    by (simp add: scenario_def user_budgets_def)
  have gs: "sum_list (map g_current (user_goals scenario 1)) = 100"
    by (simp add: scenario_def user_goals_def)
  have h: "health 1000 700 [(''food'', 300)] [(''food'', 250)] 100 = 67"
    by (simp add: health_def Let_def dict_get_def)
  have r: "round2 1000 = 1000" "round2 (- 200) = - 200" "round2 (- 100) = - 100"
    using round2_of_int [of 1000] round2_of_int [of "- 200"] round2_of_int [of "- 100"]
    by simp_all
  have ys: "[2023 .. d_year today0 + 1] = [2023, 2024, 2025, 2026, 2027]"
    by (simp add: today0_def upto_rec1)
  show ?thesis
    by (simp add: dashboard_def selected_may_2024 tr inc exps ebc dly bm gs h Let_def
        MONTHS_UA_def dict_get_def r ys scenario_view_def)
qed

text \<open>
  C1.  Whenever the dashboard renders and the income of the period is positive, its
  health score is 0.5 * spend_efficiency + 0.3 * budget_efficiency + 0.2 * saving_ratio
  as the specification defines the three over the rows of the period, the budgets and
  the goals of the user; and on the specification's scenario the score is 67.
\<close>

theorem health_formula:
  "(dashboard int_of today st uid args = Inr v \<and> 0 < v_income v \<longrightarrow>
      v_health v =
        spec_health (month_tr (v_selected_year v) (v_selected_month v) (user_tr st uid))
          (user_budgets st uid) (user_goals st uid)) \<and>
   map_sum (\<lambda>e. e) v_health (dashboard int_dec today0 scenario 1 may_2024) = Inr 67"
proof (intro conjI impI)
  assume a: "dashboard int_of today st uid args = Inr v \<and> 0 < v_income v"
  then have d: "dashboard int_of today st uid args = Inr v" and p: "0 < v_income v"
    by simp_all
  show "v_health v =
        spec_health (month_tr (v_selected_year v) (v_selected_month v) (user_tr st uid))
          (user_budgets st uid) (user_goals st uid)"
    using p health_spec
    unfolding dashboard_Inr(7) [OF d] dashboard_Inr(6) [OF d] dashboard_Inr(5) [OF d]
      dashboard_Inr(4) [OF d] dashboard_Inr(3) [OF d]
    by simp
next
  show "map_sum (\<lambda>e. e) v_health (dashboard int_dec today0 scenario 1 may_2024) = Inr 67"
    by (simp add: dashboard_scenario scenario_view_def)
qed

theorem health_formula_scenario:
  "dashboard int_dec today0 scenario 1 may_2024 = Inr scenario_view \<and>
   0 < v_income scenario_view \<and>
   v_health scenario_view =
     spec_health (month_tr 2024 5 (user_tr scenario 1)) (user_budgets scenario 1)
       (user_goals scenario 1) \<and>
   v_health scenario_view = 67"
  using health_formula [of int_dec today0 scenario 1 may_2024 scenario_view] dashboard_scenario
  by (simp add: scenario_view_def)

section \<open>Bounds of the health score\<close>

lemma spent_vs_budget_le_total: "spent_vs_budget ebc items 0 \<le> sum_list (map snd items)"
proof -
  have "sum_list (map (\<lambda>(c, a). min (dict_get ebc c 0) a) items) \<le> sum_list (map snd items)"
    by (rule sum_list_mono) auto
  then show ?thesis
    by (simp add: spent_vs_budget_sum)
qed

lemma spent_vs_budget_nonneg:
  assumes "\<And>c. 0 \<le> dict_get ebc c 0" and "\<And>c a. (c, a) \<in> set items \<Longrightarrow> 0 \<le> a"
  shows "0 \<le> spent_vs_budget ebc items 0"
proof -
  have "0 \<le> sum_list (map (\<lambda>(c, a). min (dict_get ebc c 0) a) items)"
    using assms by (intro sum_list_nonneg) auto
  then show ?thesis
    by (simp add: spent_vs_budget_sum)
qed

lemma health_le_100: "health income balance ebc bmap gs \<le> 100"
proof (cases "0 < income")
  case False
  then show ?thesis
    by (simp add: health_def)
next
  case True
  define total where "total = sum_list (map snd bmap)"
  define beff where "beff = (if total > 0 then spent_vs_budget ebc bmap 0 / total * 100 else 100)"
  define seff where "seff = max 0 (min (balance / income * 100) 100)"
  define ratio where "ratio = min (gs / income * 100) 100"
  have s: "seff \<le> 100"
    by (simp add: seff_def)
  have b: "beff \<le> 100"
    using spent_vs_budget_le_total [of ebc bmap]
    by (simp add: beff_def total_def divide_le_eq)
  have g: "ratio \<le> 100"
    by (simp add: ratio_def)
  have "health income balance ebc bmap gs = seff * (1 / 2) + beff * (3 / 10) + ratio * (1 / 5)"
    using True by (simp add: health_def Let_def beff_def total_def seff_def ratio_def)
  with s b g show ?thesis
    by linarith
qed

lemma health_no_income: "income \<le> 0 \<Longrightarrow> health income balance ebc bmap gs = 0"
  by (simp add: health_def)

lemma health_nonneg:
  assumes e: "\<And>c. 0 \<le> dict_get ebc c 0"
    and m: "\<And>c a. (c, a) \<in> set bmap \<Longrightarrow> 0 \<le> a"
    and g: "0 \<le> gs"
  shows "0 \<le> health income balance ebc bmap gs"
proof (cases "0 < income")
  case False
  then show ?thesis
    by (simp add: health_def)
next
  case True
  define total where "total = sum_list (map snd bmap)"
  define beff where "beff = (if total > 0 then spent_vs_budget ebc bmap 0 / total * 100 else 100)"
  define seff where "seff = max 0 (min (balance / income * 100) 100)"
  define ratio where "ratio = min (gs / income * 100) 100"
  have s: "0 \<le> seff"
    by (simp add: seff_def)
  have b: "0 \<le> beff"
    using spent_vs_budget_nonneg [of ebc bmap, OF e m]
    by (simp add: beff_def)
  have r: "0 \<le> ratio"
    using True g by (simp add: ratio_def)
  have "health income balance ebc bmap gs = seff * (1 / 2) + beff * (3 / 10) + ratio * (1 / 5)"
    using True by (simp add: health_def Let_def beff_def total_def seff_def ratio_def)
  with s b r show ?thesis
    by linarith
qed

lemma set_dict_set: "set (dict_set d k v) \<subseteq> insert (k, v) (set d)"
  by (induction d k v rule: dict_set.induct) auto

lemma budget_map_nonneg:
  assumes "list_all (\<lambda>b. 0 \<le> b_amount b) bs" and "\<forall>(c, a) \<in> set d. 0 \<le> a"
    and "(c, a) \<in> set (budget_map bs d)"
  shows "0 \<le> a"
  using assms
proof (induction bs arbitrary: d)
  case Nil
  then show ?case by auto
next
  case (Cons b bs)
  have "\<forall>(c, a) \<in> set (dict_set d (b_category b) (b_amount b)). 0 \<le> a"
    using Cons.prems(1,2) set_dict_set [of d "b_category b" "b_amount b"] by auto
  with Cons show ?case
    by simp
qed

lemma spec_expenses_nonneg:
  "list_all (\<lambda>t. 0 \<le> t_amount t) ts \<Longrightarrow> 0 \<le> spec_expenses_by_category ts c"
  unfolding spec_expenses_by_category_def
  by (rule sum_list_nonneg) (auto simp: list_all_iff)

lemma list_all_month_tr: "list_all P ts \<Longrightarrow> list_all P (month_tr y m ts)"
  by (simp add: month_tr_def list_all_iff)

lemma float_dec_literals:
  "float_dec ''1000'' = Some 1000" "float_dec ''0'' = Some 0" "float_dec ''-5000'' = Some (- 5000)"
  "float_dec ''100'' = Some 100" "float_dec ''500'' = Some 500" "float_dec ''5'' = Some 5"
  "float_dec ''abc'' = None"
  by (simp_all add: float_dec_def strip_def isspace_def unsigned_float_dec_def unsigned_dec_def
      is_digit_def nat_of_digits_def digit_val_def)

lemma parse_number_literals:
  "parse_number float_dec (PStr ''1000'') = Inr 1000"
  "parse_number float_dec (PStr ''0'') = Inr 0"
  "parse_number float_dec (PStr ''-5000'') = Inr (- 5000)"
  "parse_number float_dec (PStr ''100'') = Inr 100"
  "parse_number float_dec (PStr ''500'') = Inr 500"
  "parse_number float_dec (PStr ''5'') = Inr 5"
  "parse_number float_dec (PStr ''abc'') = Inl ValueError"
  by (simp_all add: parse_number_def strip_def isspace_def replace_comma_def float_dec_literals)

text \<open>The store with the negative goal is the store after two requests of user 1.\<close>

lemma negative_savings_reachable:
  "run float_dec today0 negative_savings_requests = negative_savings"
  by (simp add: run_def step_def handle_def negative_savings_requests_def empty_store_def
      add_transaction_def add_savings_def parse_number_literals str_or_def or_None_def
      next_id_def negative_savings_def)

lemma dashboard_negative_savings:
  "map_sum (\<lambda>e. e) v_health (dashboard int_dec today0 negative_savings 1 may_2024) = Inr (- 20)"
proof -
  have tr: "month_tr 2024 5 (user_tr negative_savings 1) = transactions negative_savings"
    by (simp add: month_tr_def user_tr_def month_prefix_2024_05 negative_savings_def
        startswith_def)
  have inc: "income_sum (transactions negative_savings) = 1000"
    and exps: "expenses_sum (transactions negative_savings) = 0"
    by (simp_all add: income_sum_def expenses_sum_def negative_savings_def)
  have ebc: "exp_by_cat (transactions negative_savings) [] = []"
    by (simp add: negative_savings_def)
  have bm: "budget_map (user_budgets negative_savings 1) [] = []"
    by (simp add: negative_savings_def user_budgets_def)
  have gs: "sum_list (map g_current (user_goals negative_savings 1)) = - 5000"
    by (simp add: negative_savings_def user_goals_def)
  have h: "health 1000 1000 [] [] (- 5000) = - 20"
    by (simp add: health_def Let_def)
  show ?thesis
    by (simp add: dashboard_def selected_may_2024 tr inc exps ebc bm gs h Let_def MONTHS_UA_def)
qed

lemma dashboard_empty_store:
  "\<exists>v. dashboard int_dec today0 empty_store 1 Map.empty = Inr v \<and> v_income v = 0"
  by (simp add: dashboard_def selected_period_def today0_def Let_def MONTHS_UA_def
      empty_store_def user_tr_def month_tr_def income_sum_def)

text \<open>
  C2, as the code has it.  The health score of a rendered dashboard is at most 100, it is
  0 when the income of the period is 0 (or negative), and it is at least 0 when no
  amount stored for the user is negative: no transaction amount, no budget limit and no
  current amount of a goal.  Without the last condition the score can be negative, since
  the saving ratio has no lower clamp and no handler refuses a negative amount.
\<close>

theorem health_bounds:
  "dashboard int_of today st uid args = Inr v \<Longrightarrow>
     v_health v \<le> 100 \<and>
     (v_income v \<le> 0 \<longrightarrow> v_health v = 0) \<and>
     (list_all (\<lambda>t. 0 \<le> t_amount t) (user_tr st uid) \<and>
      list_all (\<lambda>b. 0 \<le> b_amount b) (user_budgets st uid) \<and>
      list_all (\<lambda>g. 0 \<le> g_current g) (user_goals st uid) \<longrightarrow> 0 \<le> v_health v)"
proof (intro conjI impI)
  assume d: "dashboard int_of today st uid args = Inr v"
  let ?mtr = "month_tr (v_selected_year v) (v_selected_month v) (user_tr st uid)"
  note h = dashboard_Inr(7) [OF d]
  show "v_health v \<le> 100"
    unfolding h by (rule health_le_100)
  show "v_health v = 0" if "v_income v \<le> 0"
    unfolding h using that by (rule health_no_income)
  show "0 \<le> v_health v"
    if a: "list_all (\<lambda>t. 0 \<le> t_amount t) (user_tr st uid) \<and>
      list_all (\<lambda>b. 0 \<le> b_amount b) (user_budgets st uid) \<and>
      list_all (\<lambda>g. 0 \<le> g_current g) (user_goals st uid)"
  proof -
    have e: "0 \<le> dict_get (exp_by_cat ?mtr []) c 0" for c
      using dict_get_exp_by_cat [of ?mtr "[]" c] spec_expenses_nonneg [of ?mtr c]
        list_all_month_tr a
      by (simp add: dict_get_def)
    have m: "0 \<le> x" if "(c, x) \<in> set (budget_map (user_budgets st uid) [])" for c x
      using budget_map_nonneg [of "user_budgets st uid" "[]" c x] a that by simp
    have g: "0 \<le> v_goals_savings v"
      unfolding dashboard_Inr(6) [OF d] using a
      by (intro sum_list_nonneg) (auto simp: list_all_iff)
    show ?thesis
      unfolding h using e m g by (rule health_nonneg)
  qed
qed

text \<open>
  The bounds on the scenario, where no amount is negative and the score is 67, and on
  the empty store, where the income is 0.
\<close>

theorem health_bounds_scenario:
  "dashboard int_dec today0 scenario 1 may_2024 = Inr scenario_view \<and>
   list_all (\<lambda>t. 0 \<le> t_amount t) (user_tr scenario 1) \<and>
   list_all (\<lambda>b. 0 \<le> b_amount b) (user_budgets scenario 1) \<and>
   list_all (\<lambda>g. 0 \<le> g_current g) (user_goals scenario 1) \<and>
   0 \<le> v_health scenario_view \<and> v_health scenario_view \<le> 100 \<and>
   (\<exists>v. dashboard int_dec today0 empty_store 1 Map.empty = Inr v \<and> v_income v \<le> 0 \<and>
        v_health v = 0)"
proof -
  have n: "list_all (\<lambda>t. 0 \<le> t_amount t) (user_tr scenario 1)"
    "list_all (\<lambda>b. 0 \<le> b_amount b) (user_budgets scenario 1)"
    "list_all (\<lambda>g. 0 \<le> g_current g) (user_goals scenario 1)"
    by (simp_all add: scenario_def user_tr_def user_budgets_def user_goals_def)
  obtain v where v: "dashboard int_dec today0 empty_store 1 Map.empty = Inr v" "v_income v = 0"
    using dashboard_empty_store by blast
  from health_bounds [OF v(1)] v have "v_income v \<le> 0 \<and> v_health v = 0"
    by simp
  with v(1) have "\<exists>v. dashboard int_dec today0 empty_store 1 Map.empty = Inr v \<and>
      v_income v \<le> 0 \<and> v_health v = 0"
    by blast
  with health_bounds [OF dashboard_scenario] n dashboard_scenario show ?thesis
    by simp
qed

text \<open>
  C2 as stated fails: with an income of 1000 and a goal holding - 5000 the score is
  0.5 * 100 + 0.3 * 100 + 0.2 * (- 500) = - 20.
\<close>

theorem health_negative:
  "run float_dec today0 negative_savings_requests = negative_savings \<and>
   map_sum (\<lambda>e. e) v_health (dashboard int_dec today0 negative_savings 1 may_2024) = Inr (- 20) \<and>
   \<not> (0 \<le> (- 20 :: amount) \<and> (- 20 :: amount) \<le> 100)"
  by (simp add: negative_savings_reachable dashboard_negative_savings)

section \<open>The daily series\<close>

lemma dict_get_daily:
  "dict_get (daily ts dd) d 0 =
     dict_get dd d 0 + sum_list (map (\<lambda>t. sign_of t * t_amount t) (filter (\<lambda>t. t_date t = d) ts))"
  by (induction ts arbitrary: dd) (auto simp: dict_get_dict_set)

lemma keys_daily: "fst ` set (daily ts dd) = fst ` set dd \<union> t_date ` set ts"
  by (induction ts arbitrary: dd) (simp_all add: keys_dict_set)

lemma distinct_daily: "distinct (map fst dd) \<Longrightarrow> distinct (map fst (daily ts dd))"
  by (induction ts arbitrary: dd) (auto simp: distinct_dict_set)

lemma signed_sum_net_of_day:
  "sum_list (map (\<lambda>t. sign_of t * t_amount t) (filter (\<lambda>t. t_date t = d) ts)) = net_of_day ts d"
  by (induction ts) (auto simp: net_of_day_def sign_of_def)

lemma daily_net_of_day: "dict_get (daily ts []) d 0 = net_of_day ts d"
  using dict_get_daily [of ts "[]" d] by (simp add: signed_sum_net_of_day dict_get_def)

lemma net_of_day_spec:
  "list_all (\<lambda>t. t_type t = ''income'' \<or> t_type t = ''expense'') ts \<Longrightarrow>
   net_of_day ts d = spec_daily_net ts d"
proof -
  assume a: "list_all (\<lambda>t. t_type t = ''income'' \<or> t_type t = ''expense'') ts"
  have "filter (\<lambda>t. t_date t = d \<and> t_type t \<noteq> ''income'') ts =
        filter (\<lambda>t. t_date t = d \<and> t_type t = ''expense'') ts"
    using a by (intro filter_cong) (auto simp: list_all_iff)
  then show ?thesis
    by (simp add: net_of_day_def spec_daily_net_def)
qed

text \<open>\<open>round2\<close> returns a multiple of 1/100 that is nearest to its argument.\<close>

lemma round_half_even_close: "\<bar>of_int (round_half_even y) - y\<bar> \<le> 1 / 2"
proof -
  have "of_int \<lfloor>y\<rfloor> \<le> y" and "y < of_int \<lfloor>y\<rfloor> + 1"
    by linarith+
  then show ?thesis
    by (auto simp: round_half_even_def Let_def)
qed

lemma round2_hundredths: "round2 x * 100 = of_int (round_half_even (x * 100))"
  by (simp add: round2_def)

lemma round2_close: "\<bar>round2 x - x\<bar> \<le> 1 / 200"
proof -
  have "\<bar>round2 x - x\<bar> = \<bar>of_int (round_half_even (x * 100)) - x * 100\<bar> / 100"
    by (simp add: round2_def field_simps abs_divide flip: diff_divide_distrib)
  also have "\<dots> \<le> (1 / 2) / 100"
    using round_half_even_close [of "x * 100"] by (intro divide_right_mono) auto
  finally show ?thesis
    by simp
qed

lemma dashboard_daily_example:
  "map_sum (\<lambda>e. e) (\<lambda>v. (v_daily_labels v, v_daily_values v))
     (dashboard int_dec today0 daily_example 1 may_2024) =
   Inr ([''2024-05-01'', ''2024-05-03''], [50, - 20])"
proof -
  have tr: "month_tr 2024 5 (user_tr daily_example 1) = transactions daily_example"
    by (simp add: month_tr_def user_tr_def month_prefix_2024_05 daily_example_def startswith_def)
  have dly: "daily (transactions daily_example) [] = [(''2024-05-03'', - 20), (''2024-05-01'', 50)]"
    by (simp add: daily_example_def sign_of_def dict_get_def)
  have r: "round2 50 = 50" "round2 (- 20) = - 20"
    using round2_of_int [of 50] round2_of_int [of "- 20"] by simp_all
  show ?thesis
    by (simp add: dashboard_def selected_may_2024 tr dly Let_def MONTHS_UA_def dict_get_def r)
qed

lemma transfer_store_reachable: "run float_dec today0 transfer_requests = transfer_store"
  by (simp add: run_def step_def handle_def transfer_requests_def empty_store_def
      add_transaction_def parse_number_literals str_or_def next_id_def transfer_store_def)

lemma dashboard_transfer_store:
  "map_sum (\<lambda>e. e) (\<lambda>v. (v_daily_labels v, v_daily_values v))
     (dashboard int_dec today0 transfer_store 1 may_2024) = Inr ([''2024-05-01''], [- 5])"
proof -
  have tr: "month_tr 2024 5 (user_tr transfer_store 1) = transactions transfer_store"
    by (simp add: month_tr_def user_tr_def month_prefix_2024_05 transfer_store_def startswith_def)
  have dly: "daily (transactions transfer_store) [] = [(''2024-05-01'', - 5)]"
    by (simp add: transfer_store_def sign_of_def dict_get_def)
  have r: "round2 (- 5) = - 5"
    using round2_of_int [of "- 5"] by simp
  show ?thesis
    by (simp add: dashboard_def selected_may_2024 tr dly Let_def MONTHS_UA_def dict_get_def r)
qed

text \<open>
  C3, as the code has it.  The labels of the daily series are the distinct dates of the
  period's transactions in ascending order, and the value of a date is its net rounded
  to 2 decimal places, where the net adds the amounts of type income and subtracts every
  other amount; it is the specification's net (income added, expense subtracted) when
  the period holds no other type.  The specification's two days give the labels
  2024-05-01, 2024-05-03 and the values 50, - 20.
\<close>

theorem daily_net_series:
  "(dashboard int_of today st uid args = Inr v \<longrightarrow>
      sorted (v_daily_labels v) \<and> distinct (v_daily_labels v) \<and>
      set (v_daily_labels v) =
        set (map t_date (month_tr (v_selected_year v) (v_selected_month v) (user_tr st uid))) \<and>
      v_daily_values v =
        map (\<lambda>d. round2 (net_of_day
               (month_tr (v_selected_year v) (v_selected_month v) (user_tr st uid)) d))
          (v_daily_labels v) \<and>
      (list_all (\<lambda>t. t_type t = ''income'' \<or> t_type t = ''expense'')
         (month_tr (v_selected_year v) (v_selected_month v) (user_tr st uid)) \<longrightarrow>
       v_daily_values v =
         map (\<lambda>d. round2 (spec_daily_net
                (month_tr (v_selected_year v) (v_selected_month v) (user_tr st uid)) d))
           (v_daily_labels v))) \<and>
   map_sum (\<lambda>e. e) (\<lambda>v. (v_daily_labels v, v_daily_values v))
     (dashboard int_dec today0 daily_example 1 may_2024) =
   Inr ([''2024-05-01'', ''2024-05-03''], [50, - 20])"
proof (intro conjI impI)
  assume d: "dashboard int_of today st uid args = Inr v"
  let ?mtr = "month_tr (v_selected_year v) (v_selected_month v) (user_tr st uid)"
  note l = dashboard_Inr(8) [OF d]
  note vs = dashboard_Inr(9) [OF d]
  show "sorted (v_daily_labels v)"
    by (simp add: l)
  show "distinct (v_daily_labels v)"
    using distinct_daily [of "[]" ?mtr] by (simp add: l)
  show "set (v_daily_labels v) = set (map t_date ?mtr)"
    using keys_daily [of ?mtr "[]"] by (simp add: l)
  show n: "v_daily_values v = map (\<lambda>d. round2 (net_of_day ?mtr d)) (v_daily_labels v)"
    by (simp add: vs daily_net_of_day)
  show "v_daily_values v = map (\<lambda>d. round2 (spec_daily_net ?mtr d)) (v_daily_labels v)"
    if "list_all (\<lambda>t. t_type t = ''income'' \<or> t_type t = ''expense'') ?mtr"
    using n net_of_day_spec [OF that] by simp
next
  show "map_sum (\<lambda>e. e) (\<lambda>v. (v_daily_labels v, v_daily_values v))
     (dashboard int_dec today0 daily_example 1 may_2024) =
   Inr ([''2024-05-01'', ''2024-05-03''], [50, - 20])"
    by (rule dashboard_daily_example)
qed

text \<open>The series of the health scenario: three days, all of type income or expense.\<close>

theorem daily_net_series_scenario:
  "dashboard int_dec today0 scenario 1 may_2024 = Inr scenario_view \<and>
   list_all (\<lambda>t. t_type t = ''income'' \<or> t_type t = ''expense'')
     (month_tr 2024 5 (user_tr scenario 1)) \<and>
   v_daily_labels scenario_view = [''2024-05-01'', ''2024-05-02'', ''2024-05-03''] \<and>
   sorted (v_daily_labels scenario_view) \<and>
   v_daily_values scenario_view =
     map (\<lambda>d. round2 (spec_daily_net (month_tr 2024 5 (user_tr scenario 1)) d))
       (v_daily_labels scenario_view) \<and>
   v_daily_values scenario_view = [1000, - 200, - 100]"
proof -
  have tr: "month_tr 2024 5 (user_tr scenario 1) = transactions scenario"
    by (simp add: month_tr_def user_tr_def month_prefix_2024_05 scenario_def startswith_def)
  have t: "list_all (\<lambda>t. t_type t = ''income'' \<or> t_type t = ''expense'')
     (month_tr 2024 5 (user_tr scenario 1))"
    by (simp add: tr) (simp add: scenario_def)
  have s: "v_selected_year scenario_view = 2024" "v_selected_month scenario_view = 5"
    by (simp_all add: scenario_view_def)
  have "sorted (v_daily_labels scenario_view) \<and>
    v_daily_values scenario_view =
     map (\<lambda>d. round2 (spec_daily_net (month_tr 2024 5 (user_tr scenario 1)) d))
       (v_daily_labels scenario_view)"
    using daily_net_series [of int_dec today0 scenario 1 may_2024 scenario_view]
      dashboard_scenario t
    unfolding s by blast
  with dashboard_scenario t show ?thesis
    by (simp add: scenario_view_def)
qed

text \<open>
  C3 as stated fails on a transaction of another type: a transfer of 5 is subtracted,
  while income minus expense of that day is 0.
\<close>

theorem daily_net_transfer:
  "run float_dec today0 transfer_requests = transfer_store \<and>
   map_sum (\<lambda>e. e) (\<lambda>v. (v_daily_labels v, v_daily_values v))
     (dashboard int_dec today0 transfer_store 1 may_2024) = Inr ([''2024-05-01''], [- 5]) \<and>
   map (\<lambda>d. round2 (spec_daily_net (month_tr 2024 5 (user_tr transfer_store 1)) d))
     [''2024-05-01''] = [0]"
proof -
  have tr: "month_tr 2024 5 (user_tr transfer_store 1) = transactions transfer_store"
    by (simp add: month_tr_def user_tr_def month_prefix_2024_05 transfer_store_def startswith_def)
  have "spec_daily_net (transactions transfer_store) ''2024-05-01'' = 0"
    by (simp add: spec_daily_net_def transfer_store_def)
  then show ?thesis
    using round2_of_int [of 0]
    by (simp add: transfer_store_reachable dashboard_transfer_store tr)
qed

section \<open>The selected period\<close>

lemma MONTHS_UA_None: "MONTHS_UA m = None \<longleftrightarrow> \<not> (1 \<le> m \<and> m \<le> 12)"
  unfolding MONTHS_UA_def by (simp; arith)

text \<open>
  A month that \<open>int\<close> reads is taken as it is: outside 1 to 12 the handler raises
  \<open>KeyError\<close>, whatever the store holds.
\<close>

lemma dashboard_month_out_of_range:
  assumes "args ''month'' = Some m" "args ''year'' = Some y" "m \<noteq> []" "y \<noteq> []"
    and "int_of m = Some sel_month" "int_of y = Some sel_year"
    and "\<not> (1 \<le> sel_month \<and> sel_month \<le> 12)"
  shows "dashboard int_of today st uid args = Inl KeyError"
  using assms MONTHS_UA_None [of sel_month]
  by (simp add: dashboard_def selected_period_def Let_def)

text \<open>
  Arguments that are absent, empty or not read by \<open>int\<close> select today's month and
  year, and the dashboard renders.
\<close>

lemma dashboard_falls_back:
  assumes "args ''month'' = None \<or> args ''month'' = Some [] \<or> args ''year'' = None \<or>
           args ''year'' = Some [] \<or>
           (\<exists>m. args ''month'' = Some m \<and> int_of m = None) \<or>
           (\<exists>y. args ''year'' = Some y \<and> int_of y = None)"
    and "1 \<le> d_month today" "d_month today \<le> 12"
  shows "\<exists>v. dashboard int_of today st uid args = Inr v \<and>
             v_selected_month v = d_month today \<and> v_selected_year v = d_year today"
proof -
  have "selected_period int_of today (args ''month'') (args ''year'') =
        (d_month today, d_year today)"
    using assms(1) by (auto simp: selected_period_def split: option.splits)
  moreover obtain name where "MONTHS_UA (d_month today) = Some name"
    using MONTHS_UA_None [of "d_month today"] assms(2,3) by auto
  ultimately show ?thesis
    by (simp add: dashboard_def Let_def)
qed

text \<open>
  C4.  The month 13 (and the month 0) with the year 2024 is read by \<open>int\<close>, no
  fallback takes place, and \<open>MONTHS_UA[sel_month]\<close> raises \<open>KeyError\<close>: the request
  does not complete.
\<close>

theorem dashboard_month_13:
  "dashboard int_dec today0 empty_store 1 month_13 = Inl KeyError \<and>
   dashboard int_dec today0 empty_store 1 month_0 = Inl KeyError \<and>
   selected_period int_dec today0 (month_13 ''month'') (month_13 ''year'') = (13, 2024)"
proof -
  have "dashboard int_dec today0 empty_store 1 month_13 = Inl KeyError"
    by (rule dashboard_month_out_of_range
          [where m = "''13''" and y = "''2024''" and sel_month = 13 and sel_year = 2024])
      (simp_all add: month_13_def int_dec_numerals)
  moreover have "dashboard int_dec today0 empty_store 1 month_0 = Inl KeyError"
    by (rule dashboard_month_out_of_range
          [where m = "''0''" and y = "''2024''" and sel_month = 0 and sel_year = 2024])
      (simp_all add: month_0_def int_dec_numerals)
  ultimately show ?thesis
    by (simp add: selected_period_def month_13_def int_dec_numerals)
qed

section \<open>The period prefix\<close>

lemma digits_small: "n < 10 \<Longrightarrow> digits n = [digit_char n]"
  by (simp add: digits.simps)

lemma digits_large: "10 \<le> n \<Longrightarrow> digits n = digits (n div 10) @ [digit_char (n mod 10)]"
  by (subst digits.simps) simp

lemma length_digits_2:
  assumes "10 \<le> n" "n < 100"
  shows "length (digits n) = 2"
proof -
  have "n div 10 < 10"
    using assms by simp
  then show ?thesis
    using assms by (simp add: digits_large [of n] digits_small)
qed

lemma length_digits_3:
  assumes "100 \<le> n" "n < 1000"
  shows "length (digits n) = 3"
proof -
  have "10 \<le> n div 10" "n div 10 < 100"
    using assms by simp_all
  then have "length (digits (n div 10)) = 2"
    by (rule length_digits_2)
  then show ?thesis
    using assms by (simp add: digits_large [of n])
qed

lemma length_digits_4:
  assumes "1000 \<le> n" "n < 10000"
  shows "length (digits n) = 4"
proof -
  have "100 \<le> n div 10" "n div 10 < 1000"
    using assms by simp_all
  then have "length (digits (n div 10)) = 3"
    by (rule length_digits_3)
  then show ?thesis
    using assms by (simp add: digits_large [of n])
qed

lemma str_int_four_digits:
  assumes "1000 \<le> year" "year \<le> 9999"
  shows "str_int year = format_d 4 year" and "length (str_int year) = 4"
  using assms length_digits_4 [of "nat year"]
  by (simp_all add: str_int_def format_d_def)

lemma length_format_month:
  assumes "1 \<le> month" "month \<le> 12"
  shows "length (format_d 2 month) = 2"
proof (cases "month < 10")
  case True
  with assms show ?thesis
    by (simp add: format_d_def digits_small)
next
  case False
  with assms show ?thesis
    using length_digits_2 [of "nat month"] by (simp add: format_d_def)
qed

lemma month_prefix_spec:
  assumes "1000 \<le> year" "year \<le> 9999" "1 \<le> month" "month \<le> 12"
  shows "month_prefix year month = spec_period_prefix year month"
    and "length (month_prefix year month) = 7"
  using str_int_four_digits [OF assms(1,2)] length_format_month [OF assms(3,4)]
  by (simp_all add: month_prefix_def spec_period_prefix_def)

text \<open>
  C8, as the code has it.  The prefix of the filter is \<open>f"{sel_year}-{sel_month:02d}"\<close>,
  the year not padded.  For a year of four digits and a month from 1 to 12 it is the
  specification's prefix: the transactions of the period are those whose date has it as
  its first 7 characters.
\<close>

theorem period_filter:
  "1000 \<le> year \<and> year \<le> 9999 \<and> 1 \<le> month \<and> month \<le> 12 \<Longrightarrow>
   month_tr year month trs = spec_period_tr year month trs"
proof -
  assume a: "1000 \<le> year \<and> year \<le> 9999 \<and> 1 \<le> month \<and> month \<le> 12"
  then have p: "month_prefix year month = spec_period_prefix year month"
    and l: "length (month_prefix year month) = 7"
    using month_prefix_spec [of year month] by simp_all
  have "startswith s (month_prefix year month) = (take 7 s = spec_period_prefix year month)" for s
    unfolding startswith_def l unfolding p ..
  then show ?thesis
    by (simp add: month_tr_def spec_period_tr_def)
qed

theorem period_filter_may_2024:
  "(1000 :: int) \<le> 2024 \<and> (2024 :: int) \<le> 9999 \<and> (1 :: int) \<le> 5 \<and> (5 :: int) \<le> 12 \<and>
   month_tr 2024 5 (transactions scenario) = spec_period_tr 2024 5 (transactions scenario) \<and>
   month_tr 2024 5 (transactions scenario) = transactions scenario"
proof -
  have "month_tr 2024 5 (transactions scenario) = transactions scenario"
    by (simp add: month_tr_def month_prefix_2024_05 scenario_def startswith_def)
  with period_filter [of 2024 5 "transactions scenario"] show ?thesis
    by simp
qed

text \<open>
  C8 as stated fails for a year of fewer than four digits: for the year 999 the code's
  prefix is 999-05, which no date printed with a four-digit year starts with, while the
  first 7 characters of 0999-05-01 are the specification's prefix 0999-05.
\<close>

theorem period_filter_year_999:
  "selected_period int_dec today0 (may_999 ''month'') (may_999 ''year'') = (5, 999) \<and>
   month_prefix 999 5 = ''999-05'' \<and> spec_period_prefix 999 5 = ''0999-05'' \<and>
   month_tr 999 5 (user_tr year_999 1) = [] \<and>
   spec_period_tr 999 5 (user_tr year_999 1) = transactions year_999 \<and>
   transactions year_999 \<noteq> []"
proof -
  have p: "month_prefix 999 5 = ''999-05''"
    by (simp add: month_prefix_def str_int_def format_d_def digits.simps digit_char_def)
  have q: "spec_period_prefix 999 5 = ''0999-05''"
    by (simp add: spec_period_prefix_def format_d_def digits.simps digit_char_def)
  show ?thesis
    by (simp add: p q selected_period_def may_999_def int_dec_numerals month_tr_def
        spec_period_tr_def user_tr_def year_999_def startswith_def)
qed

section \<open>Rows of another user\<close>

lemma delete_transaction_foreign:
  "find (\<lambda>t. t_id t = tid) (transactions st) = Some tr \<Longrightarrow> t_user_id tr \<noteq> uid \<Longrightarrow>
   delete_transaction st uid tid = Inr (st, \<lparr>flashes = [], redirect = Transactions_view\<rparr>)"
  by (simp add: delete_transaction_def)

lemma update_goal_foreign:
  "find (\<lambda>g. g_id g = gid) (goals st) = Some g \<Longrightarrow> g_user_id g \<noteq> uid \<Longrightarrow>
   update_goal float st uid gid frm =
     Inr (st, \<lparr>flashes = [(Goal_not_found, Danger)], redirect = Savings_page\<rparr>)"
  by (simp add: update_goal_def)

lemma delete_goal_foreign:
  "find (\<lambda>g. g_id g = gid) (goals st) = Some g \<Longrightarrow> g_user_id g \<noteq> uid \<Longrightarrow>
   delete_goal st uid gid =
     Inr (st, \<lparr>flashes = [(Goal_not_deleted, Danger)], redirect = Savings_page\<rparr>)"
  by (simp add: delete_goal_def)

text \<open>
  C5.  A request of user \<open>uid\<close> with the id of a transaction or of a goal that belongs
  to another user leaves the whole store as it is, in \<open>delete_transaction\<close>,
  \<open>update_goal\<close> and \<open>delete_goal\<close>.  The two goal handlers flash a failure message;
  \<open>delete_transaction\<close> has no such branch and flashes nothing.
\<close>

theorem foreign_rows_untouched:
  "(find (\<lambda>t. t_id t = tid) (transactions st) = Some tr \<and> t_user_id tr \<noteq> uid \<longrightarrow>
      delete_transaction st uid tid =
        Inr (st, \<lparr>flashes = [], redirect = Transactions_view\<rparr>)) \<and>
   (find (\<lambda>g. g_id g = gid) (goals st) = Some g \<and> g_user_id g \<noteq> uid \<longrightarrow>
      update_goal float st uid gid frm =
        Inr (st, \<lparr>flashes = [(Goal_not_found, Danger)], redirect = Savings_page\<rparr>) \<and>
      delete_goal st uid gid =
        Inr (st, \<lparr>flashes = [(Goal_not_deleted, Danger)], redirect = Savings_page\<rparr>))"
  using delete_transaction_foreign [of tid st tr uid] update_goal_foreign [of gid st g uid float frm]
    delete_goal_foreign [of gid st g uid]
  by blast

text \<open>
  User 1 posts the ids of the transaction 7 and of the goal 3 of user 2: the store is
  unchanged, and \<open>delete_transaction\<close> answers with the redirect alone.
\<close>

theorem foreign_rows_two_users:
  "find (\<lambda>t. t_id t = 7) (transactions two_users) = Some (hd (transactions two_users)) \<and>
   t_user_id (hd (transactions two_users)) \<noteq> 1 \<and>
   find (\<lambda>g. g_id g = 3) (goals two_users) = Some (hd (goals two_users)) \<and>
   g_user_id (hd (goals two_users)) \<noteq> 1 \<and>
   delete_transaction two_users 1 7 =
     Inr (two_users, \<lparr>flashes = [], redirect = Transactions_view\<rparr>) \<and>
   update_goal float_dec two_users 1 3 Map.empty =
     Inr (two_users, \<lparr>flashes = [(Goal_not_found, Danger)], redirect = Savings_page\<rparr>) \<and>
   delete_goal two_users 1 3 =
     Inr (two_users, \<lparr>flashes = [(Goal_not_deleted, Danger)], redirect = Savings_page\<rparr>)"
proof -
  have h: "find (\<lambda>t. t_id t = 7) (transactions two_users) = Some (hd (transactions two_users))"
    "t_user_id (hd (transactions two_users)) \<noteq> 1"
    "find (\<lambda>g. g_id g = 3) (goals two_users) = Some (hd (goals two_users))"
    "g_user_id (hd (goals two_users)) \<noteq> 1"
    by (simp_all add: two_users_def)
  with foreign_rows_untouched [where tid = 7 and st = two_users
      and tr = "hd (transactions two_users)" and uid = 1 and gid = 3
      and g = "hd (goals two_users)" and float = float_dec and frm = Map.empty]
  show ?thesis
    by blast
qed

section \<open>Saving and renaming a budget\<close>







lemma strip_words: "strip ''food'' = ''food''" "strip ''rent'' = ''rent''"
  by (simp_all add: strip_def isspace_def)

lemma run_two_budgets: "run float_dec today0 two_budgets_requests = two_budgets"
  by (simp add: run_def step_def handle_def two_budgets_requests_def empty_store_def
      save_budget_route_def parse_number_literals strip_words next_id_def two_budgets_def)



lemma update_budget_two_budgets:
  "update_budget float_dec two_budgets 1 rename_rent_to_food =
     Inr (two_food_budgets, \<lparr>flashes = [(Category_updated, Success)], redirect = Budget_page\<rparr>)"
  by (simp add: update_budget_def rename_rent_to_food_def parse_number_literals strip_words
      two_budgets_def two_food_budgets_def)

text \<open>
  C9.  After user 1 saved the budgets food and rent, each category has one row.  Posting
  \<open>update_budget\<close> with the old category rent and the new category food succeeds and
  leaves two rows of user 1 with the category food: \<open>update_budget\<close> looks the old
  category up and never the new one.
\<close>

theorem update_budget_duplicates_category:
  "\<exists>reqs frm st' r b1 b2.
     distinct (map b_category (user_budgets (run float_dec today0 reqs) 1)) \<and>
     update_budget float_dec (run float_dec today0 reqs) 1 frm = Inr (st', r) \<and>
     b1 \<in> set (budgets st') \<and> b2 \<in> set (budgets st') \<and> b_id b1 \<noteq> b_id b2 \<and>
     b_user_id b1 = 1 \<and> b_user_id b2 = 1 \<and> b_category b1 = b_category b2 \<and>
     \<not> distinct (map b_category (user_budgets st' 1))"
proof -
  let ?b1 = "\<lparr>b_id = 1, b_user_id = 1, b_category = ''food'', b_amount = 100\<rparr>"
  let ?b2 = "\<lparr>b_id = 2, b_user_id = 1, b_category = ''food'', b_amount = 500\<rparr>"
  have "distinct (map b_category (user_budgets (run float_dec today0 two_budgets_requests) 1))"
    by (simp add: run_two_budgets) (simp add: two_budgets_def user_budgets_def)
  moreover have "update_budget float_dec (run float_dec today0 two_budgets_requests) 1
      rename_rent_to_food =
      Inr (two_food_budgets, \<lparr>flashes = [(Category_updated, Success)], redirect = Budget_page\<rparr>)"
    by (simp add: run_two_budgets update_budget_two_budgets)
  moreover have "?b1 \<in> set (budgets two_food_budgets)" "?b2 \<in> set (budgets two_food_budgets)"
    "b_id ?b1 \<noteq> b_id ?b2" "b_user_id ?b1 = 1" "b_user_id ?b2 = 1"
    "b_category ?b1 = b_category ?b2"
    "\<not> distinct (map b_category (user_budgets two_food_budgets 1))"
    by (simp_all add: two_food_budgets_def user_budgets_def)
  ultimately show ?thesis
    by blast
qed

section \<open>Numbers that do not parse\<close>

lemma add_transaction_unparsed:
  "frm ''amount'' = Some raw \<Longrightarrow> parse_number float (PStr raw) = Inl ValueError \<Longrightarrow>
   add_transaction float today st uid frm =
     Inr (st, \<lparr>flashes = [(Transaction_amount_must_be_number, Danger)],
               redirect = Transactions_view\<rparr>)"
  by (simp add: add_transaction_def)

lemma save_budget_route_unparsed:
  "frm ''category'' = Some c \<Longrightarrow> frm ''amount'' = Some raw \<Longrightarrow>
   parse_number float (PStr raw) = Inl ValueError \<Longrightarrow>
   save_budget_route float st uid frm =
     Inr (st, \<lparr>flashes = [(Budget_amount_must_be_number, Danger)], redirect = Budget_page\<rparr>)"
  by (simp add: save_budget_route_def)

lemma update_budget_unparsed:
  "frm ''old_category'' = Some oc \<Longrightarrow> frm ''category'' = Some c \<Longrightarrow>
   frm ''amount'' = Some raw \<Longrightarrow> parse_number float (PStr raw) = Inl ValueError \<Longrightarrow>
   update_budget float st uid frm =
     Inr (st, \<lparr>flashes = [(Budget_amount_must_be_number, Danger)], redirect = Budget_page\<rparr>)"
  by (simp add: update_budget_def)

lemma add_savings_unparsed:
  "frm ''name'' = Some name \<Longrightarrow> frm ''target'' = Some raw_target \<Longrightarrow>
   parse_number float (PStr raw_target) = Inl ValueError \<or>
   parse_number float (PStr raw_target) = Inr target \<and>
   parse_number float (PStr (case frm ''current'' of None \<Rightarrow> ''0'' | Some s \<Rightarrow> s)) = Inl ValueError \<Longrightarrow>
   add_savings float st uid frm =
     Inr (st, \<lparr>flashes = [(Goal_amounts_must_be_numbers, Danger)], redirect = Savings_page\<rparr>)"
  by (auto simp: add_savings_def)

text \<open>\<open>update_goal\<close> on a goal of the user, the field \<open>target\<close> posted.\<close>

lemma update_goal_unparsed:
  "find (\<lambda>g. g_id g = gid) (goals st) = Some g \<Longrightarrow> g_user_id g = uid \<Longrightarrow>
   frm ''target'' = Some raw_target \<Longrightarrow>
   parse_number float (PStr raw_target) = Inl ValueError \<or>
   parse_number float (PStr raw_target) = Inr target \<and>
   (\<exists>raw_current. frm ''current'' = Some raw_current \<and>
      parse_number float (PStr raw_current) = Inl ValueError) \<Longrightarrow>
   update_goal float st uid gid frm =
     Inr (st, \<lparr>flashes = [(Goal_amounts_must_be_numbers, Danger)], redirect = Savings_page\<rparr>)"
  by (auto simp: update_goal_def)

text \<open>\<open>update_goal\<close> on a goal of the user, a field absent.\<close>

lemma parse_number_PFloat:
  "parse_number float (PFloat x) =
     (if x = 0 then (case float [] of None \<Rightarrow> Inl ValueError | Some v \<Rightarrow> Inr v)
      else Inl AttributeError)"
  by (simp add: parse_number_def strip_def replace_comma_def)

lemma update_goal_absent_target:
  "find (\<lambda>g. g_id g = gid) (goals st) = Some g \<Longrightarrow> g_user_id g = uid \<Longrightarrow>
   frm ''target'' = None \<Longrightarrow> g_target g \<noteq> 0 \<Longrightarrow>
   update_goal float st uid gid frm = Inl AttributeError"
  by (simp add: update_goal_def parse_number_PFloat)

lemma update_goal_absent_current:
  "find (\<lambda>g. g_id g = gid) (goals st) = Some g \<Longrightarrow> g_user_id g = uid \<Longrightarrow>
   frm ''target'' = Some raw_target \<Longrightarrow> parse_number float (PStr raw_target) = Inr target \<Longrightarrow>
   frm ''current'' = None \<Longrightarrow> g_current g \<noteq> 0 \<Longrightarrow>
   update_goal float st uid gid frm = Inl AttributeError"
  by (simp add: update_goal_def parse_number_PFloat)

text \<open>
  C7.  User 1 posts \<open>update_goal\<close> for the own goal 1 with \<open>current\<close> = abc, which is no
  number, and without the field \<open>target\<close>.  The handler raises \<open>AttributeError\<close> on the
  target of the row before it reads \<open>current\<close>: nothing is written, but no warning is
  flashed and there is no redirect.
\<close>

theorem update_goal_unparsed_current_raises:
  "parse_number float_dec (PStr ''abc'') = Inl ValueError \<and>
   update_goal float_dec own_goal 1 1 [''current'' \<mapsto> ''abc''] = Inl AttributeError"
proof -
  have "find (\<lambda>g. g_id g = 1) (goals own_goal) = Some (hd (goals own_goal))"
    "g_user_id (hd (goals own_goal)) = 1" "g_target (hd (goals own_goal)) \<noteq> 0"
    by (simp_all add: own_goal_def)
  then have "update_goal float_dec own_goal 1 1 [''current'' \<mapsto> ''abc''] = Inl AttributeError"
    using update_goal_absent_target [where gid = 1 and st = own_goal and g = "hd (goals own_goal)"
        and uid = 1 and frm = "[''current'' \<mapsto> ''abc'']" and float = float_dec]
    by simp
  then show ?thesis
    by (simp add: parse_number_literals)
qed

text \<open>
  C10.  There is a request of \<open>update_goal\<close> on a goal the user owns, with the field
  \<open>target\<close> absent, that raises \<open>AttributeError\<close>, which the handler does not catch;
  and there is one with \<open>target\<close> posted and \<open>current\<close> absent.  In both the float of
  the row reaches \<open>parse_number\<close>.
\<close>

theorem update_goal_absent_field_raises:
  "(\<exists>st uid gid frm g.
      find (\<lambda>g. g_id g = gid) (goals st) = Some g \<and> g_user_id g = uid \<and>
      frm ''target'' = None \<and>
      update_goal float_dec st uid gid frm = Inl AttributeError) \<and>
   (\<exists>st uid gid frm g raw_target.
      find (\<lambda>g. g_id g = gid) (goals st) = Some g \<and> g_user_id g = uid \<and>
      frm ''target'' = Some raw_target \<and> frm ''current'' = None \<and>
      update_goal float_dec st uid gid frm = Inl AttributeError)"
proof (intro conjI)
  have g: "find (\<lambda>g. g_id g = 1) (goals own_goal) = Some (hd (goals own_goal))"
    and u: "g_user_id (hd (goals own_goal)) = 1"
    and n: "g_target (hd (goals own_goal)) \<noteq> 0" "g_current (hd (goals own_goal)) \<noteq> 0"
    by (simp_all add: own_goal_def)
  have "update_goal float_dec own_goal 1 1 [''name'' \<mapsto> ''car'', ''current'' \<mapsto> ''5''] =
      Inl AttributeError"
    using g u _ n(1) by (rule update_goal_absent_target) simp
  with g u show "\<exists>st uid gid frm g.
      find (\<lambda>g. g_id g = gid) (goals st) = Some g \<and> g_user_id g = uid \<and>
      frm ''target'' = None \<and>
      update_goal float_dec st uid gid frm = Inl AttributeError"
    by (intro exI [of _ own_goal] exI [of _ 1]
        exI [of _ "[''name'' \<mapsto> ''car'', ''current'' \<mapsto> ''5'']"]
        exI [of _ "hd (goals own_goal)"]) simp
  have "update_goal float_dec own_goal 1 1 [''name'' \<mapsto> ''car'', ''target'' \<mapsto> ''500''] =
      Inl AttributeError"
    using g u _ _ _ n(2)
    by (rule update_goal_absent_current [where raw_target = "''500''" and target = 500])
      (simp_all add: parse_number_literals)
  with g u show "\<exists>st uid gid frm g raw_target.
      find (\<lambda>g. g_id g = gid) (goals st) = Some g \<and> g_user_id g = uid \<and>
      frm ''target'' = Some raw_target \<and> frm ''current'' = None \<and>
      update_goal float_dec st uid gid frm = Inl AttributeError"
    by (intro exI [of _ own_goal] exI [of _ 1]
        exI [of _ "[''name'' \<mapsto> ''car'', ''target'' \<mapsto> ''500'']"]
        exI [of _ "hd (goals own_goal)"] exI [of _ "''500''"]) simp
qed

end
